theory Spec2Isabelle
  imports Complex_Main "HOL-Library.Word" "HOL-Library.Char_ord" "HOL-Library.List_Lexorder"
begin

section \<open>Values shared by the components\<close>

text \<open>
  Go's \<open>uint\<close> is a 64-bit word. Instants and durations are counted in nanoseconds, as
  \<open>time.Duration\<close> does; an instant is the number of nanoseconds since Go's zero time, so
  \<open>t.IsZero()\<close> is \<open>t = 0\<close>. A Go \<open>map[string]string\<close> is an association list holding
  each key once, in the order the runtime happens to iterate it; reading a missing key
  gives the empty string.
\<close>

type_synonym uint = "64 word"
type_synonym instant = int
type_synonym duration = int
type_synonym strmap = "(string \<times> string) list"

definition lookup :: "strmap \<Rightarrow> string \<Rightarrow> string" where
  "lookup m k = (case map_of m k of None \<Rightarrow> [] | Some v \<Rightarrow> v)"

definition second :: duration where
  "second = 1000000000"

definition minute :: duration where
  "minute = 60 * second"

text \<open>\<open>t.Sub(u)\<close>: the difference as a \<open>Duration\<close>, saturated at the ends of int64.\<close>

definition time_Sub :: "instant \<Rightarrow> instant \<Rightarrow> duration" where
  "time_Sub t u = max (- (2 ^ 63)) (min (2 ^ 63 - 1) (t - u))"

text \<open>
  A \<open>float64\<close> by its value: not-a-number, the two infinities, or a (finite) number. The
  comparisons are those of IEEE 754, which Go's operators implement: every ordered
  comparison with a NaN is false, and \<open>!=\<close> is the negation of \<open>==\<close>.
\<close>

datatype float64 = FNaN | FNegInf | FNum real | FPosInf

fun f_lt :: "float64 \<Rightarrow> float64 \<Rightarrow> bool" where
  "f_lt (FNum x) (FNum y) = (x < y)"
| "f_lt FNegInf (FNum y) = True"
| "f_lt FNegInf FPosInf = True"
| "f_lt (FNum x) FPosInf = True"
| "f_lt _ _ = False"

fun f_eq :: "float64 \<Rightarrow> float64 \<Rightarrow> bool" where
  "f_eq (FNum x) (FNum y) = (x = y)"
| "f_eq FNegInf FNegInf = True"
| "f_eq FPosInf FPosInf = True"
| "f_eq _ _ = False"

definition f_gt :: "float64 \<Rightarrow> float64 \<Rightarrow> bool" where
  "f_gt a b = f_lt b a"

definition f_le :: "float64 \<Rightarrow> float64 \<Rightarrow> bool" where
  "f_le a b = (f_lt a b \<or> f_eq a b)"

definition f_ge :: "float64 \<Rightarrow> float64 \<Rightarrow> bool" where
  "f_ge a b = f_le b a"

definition f_ne :: "float64 \<Rightarrow> float64 \<Rightarrow> bool" where
  "f_ne a b = (\<not> f_eq a b)"

section \<open>Records read from JSON columns\<close>

text \<open>scheduler: \<open>ThresholdLevel\<close>, one level of a multi-threshold rule.\<close>

record ThresholdLevel =
  tl_Operator :: string
  tl_Value :: float64
  tl_Severity :: string
  tl_ChannelIDs :: "uint list"

text \<open>engine: \<open>suppressionConfig\<close>, the JSON shape of \<open>Rule.Suppression\<close>.\<close>

record suppressionConfig =
  sc_SourceLabels :: strmap
  sc_SuppressedLabels :: strmap
  sc_Duration :: string

section \<open>The Go standard library and the arithmetic of the machine\<close>

text \<open>
  The repository calls the standard library for parsing and hashing; those functions
  are parameters of the model. A parser that reports an error gives \<open>None\<close>. Where the
  source ignores the error of \<open>json.Unmarshal\<close> and goes on with the destination, the
  parser gives the pair of \<open>err == nil\<close> and the destination's value after the call
  (a nil map is \<open>None\<close>, a nil slice is the empty list).

  The arithmetic of \<open>float64\<close> is a parameter as well. The machine rounds the result of
  each operation to a \<open>float64\<close>, and Go lets an implementation fuse a product with the
  sum that takes it, so \<open>x + y * z\<close> is one operation (\<open>Float64_add_mul x y z\<close>) with one
  result. \<open>Duration_Seconds\<close> is \<open>Duration.Seconds()\<close>, which computes in \<open>float64\<close> too.
  \<open>Int64_out_of_range\<close> is the conversion of a \<open>float64\<close> that is not a number of the range of
  \<open>int64\<close> to an \<open>int64\<close>, which the language leaves to the implementation. The two zeros
  of \<open>float64\<close> are the one value \<open>FNum 0\<close>: the comparisons do not tell them apart, and the
  divisors of the code embedded here are 100 and the rate of the limiter, 5.
\<close>

record golib =
  ParseDuration :: "string \<Rightarrow> duration option"
  ParseRFC3339 :: "string \<Rightarrow> instant option"
  Sscanf_HM :: "string \<Rightarrow> (int \<times> int) option"
  Unmarshal_thresholds :: "string \<Rightarrow> ThresholdLevel list option"
  Unmarshal_uints :: "string \<Rightarrow> bool \<times> uint list"
  Unmarshal_strmap :: "string \<Rightarrow> bool \<times> strmap option"
  Unmarshal_windows :: "string \<Rightarrow> (string \<times> string) list option"
  Unmarshal_suppression :: "string \<Rightarrow> suppressionConfig option"
  Marshal_string :: "string \<Rightarrow> string"
  Sprint_float :: "float64 \<Rightarrow> string"
  Sum256 :: "string \<Rightarrow> string"
  ToLower :: "string \<Rightarrow> string"
  Float64_mul :: "float64 \<Rightarrow> float64 \<Rightarrow> float64"
  Float64_quo :: "float64 \<Rightarrow> float64 \<Rightarrow> float64"
  Float64_sub :: "float64 \<Rightarrow> float64 \<Rightarrow> float64"
  Float64_add_mul :: "float64 \<Rightarrow> float64 \<Rightarrow> float64 \<Rightarrow> float64"
  Duration_Seconds :: "duration \<Rightarrow> float64"
  Int64_out_of_range :: "float64 \<Rightarrow> int"

section \<open>Threshold levels (scheduler)\<close>

text \<open>
  \<open>ParseThresholds\<close>: nil for the raw strings \<open>""\<close>, \<open>"[]"\<close> and \<open>"null"\<close>, for a
  string \<open>json.Unmarshal\<close> rejects, and for a list of length 0.
\<close>

definition ParseThresholds :: "golib \<Rightarrow> string \<Rightarrow> ThresholdLevel list option" where
  "ParseThresholds L raw =
     (if raw = [] \<or> raw = ''[]'' \<or> raw = ''null'' then None
      else case Unmarshal_thresholds L raw of
             None \<Rightarrow> None
           | Some levels \<Rightarrow> if length levels = 0 then None else Some levels)"

text \<open>The \<open>switch l.Operator\<close> of \<open>MatchThreshold\<close>; its \<open>default\<close> case compares with \<open>>\<close>.\<close>

definition matched :: "ThresholdLevel \<Rightarrow> float64 \<Rightarrow> bool" where
  "matched l v =
     (if tl_Operator l = ''>'' then f_gt v (tl_Value l)
      else if tl_Operator l = ''>='' then f_ge v (tl_Value l)
      else if tl_Operator l = ''<'' then f_lt v (tl_Value l)
      else if tl_Operator l = ''<='' then f_le v (tl_Value l)
      else if tl_Operator l = ''=='' then f_eq v (tl_Value l)
      else if tl_Operator l = ''!='' then f_ne v (tl_Value l)
      else f_gt v (tl_Value l))"

text \<open>
  \<open>MatchThreshold\<close>: the loop over the levels returns at the first level that matched,
  nil after the last one.
\<close>

fun MatchThreshold :: "ThresholdLevel list \<Rightarrow> float64 \<Rightarrow> ThresholdLevel option" where
  "MatchThreshold [] v = None"
| "MatchThreshold (l # levels) v = (if matched l v then Some l else MatchThreshold levels v)"

text \<open>The six operators the rule form offers.\<close>

definition known_operators :: "string set" where
  "known_operators = {''>'', ''>='', ''<'', ''<='', ''=='', ''!=''}"

section \<open>Strings\<close>

text \<open>\<open>strconv.FormatUint(n, 10)\<close> and \<open>%d\<close> of a natural number.\<close>

function showNat :: "nat \<Rightarrow> string" where
  "showNat n = (if n < 10 then [char_of (48 + n)] else showNat (n div 10) @ [char_of (48 + n mod 10)])"
  by pat_completeness auto
termination
  by (relation "measure (\<lambda>n. n)") auto

declare showNat.simps [simp del]

text \<open>\<open>strings.Join(elems, sep)\<close>.\<close>

fun strings_Join :: "string list \<Rightarrow> string \<Rightarrow> string" where
  "strings_Join [] sep = []"
| "strings_Join [k] sep = k"
| "strings_Join (k # ks) sep = k @ sep @ strings_Join ks sep"

section \<open>Fingerprint (dedup)\<close>

text \<open>\<open>hex.EncodeToString\<close>: two lowercase hexadecimal digits for each byte.\<close>

definition hexdigit :: "nat \<Rightarrow> char" where
  "hexdigit n = ''0123456789abcdef'' ! n"

definition hexEncode :: "string \<Rightarrow> string" where
  "hexEncode bs = concat (map (\<lambda>c. [hexdigit (of_char c div 16), hexdigit (of_char c mod 16)]) bs)"

text \<open>
  \<open>json.Marshal\<close> of a non-nil \<open>map[string]string\<close>: the entries in the byte-wise order of
  their keys, each key and value quoted as a JSON string (\<open>Marshal_string\<close>). It cannot
  fail on such a map and never returns nil.
\<close>

definition json_Marshal_strmap :: "golib \<Rightarrow> strmap \<Rightarrow> string" where
  "json_Marshal_strmap L m =
     ''{'' @ strings_Join
               (map (\<lambda>k. Marshal_string L k @ '':'' @ Marshal_string L (lookup m k)) (sort (map fst m)))
               '','' @ ''}''"

text \<open>
  The map \<open>labelsSorted\<close> both key functions build: the keys of \<open>labels\<close>, sorted by
  \<open>sort.Strings\<close>, each inserted with its value.
\<close>

definition labelsSorted :: "strmap \<Rightarrow> strmap" where
  "labelsSorted labels = map (\<lambda>k. (k, lookup labels k)) (sort (map fst labels))"

text \<open>The suffix both key functions append; \<open>strconv.Itoa\<close> is reached for \<open>resultIndex \<ge> 0\<close> only.\<close>

definition disambiguator :: "strmap \<Rightarrow> int \<Rightarrow> string" where
  "disambiguator labels resultIndex =
     (if resultIndex \<ge> 0 \<and> lookup labels ''instance'' = [] \<and> lookup labels ''job'' = []
      then ''|'' @ showNat (nat resultIndex) else [])"

text \<open>A nil label map is replaced by an empty one first.\<close>

definition KeyForSeriesWithRule :: "golib \<Rightarrow> uint \<Rightarrow> uint \<Rightarrow> string \<Rightarrow> strmap option \<Rightarrow> int \<Rightarrow> string" where
  "KeyForSeriesWithRule L sourceID ruleID title labels0 resultIndex =
     (let labels = (case labels0 of None \<Rightarrow> [] | Some m \<Rightarrow> m);
          labelsJSON = json_Marshal_strmap L (labelsSorted labels);
          payload = showNat (unat sourceID) @ ''|'' @ showNat (unat ruleID) @ ''|'' @ title @ ''|''
                      @ labelsJSON @ disambiguator labels resultIndex
      in hexEncode (Sum256 L payload))"

definition keyWithDisambiguator :: "golib \<Rightarrow> uint \<Rightarrow> string \<Rightarrow> strmap option \<Rightarrow> int \<Rightarrow> string" where
  "keyWithDisambiguator L sourceID title labels0 resultIndex =
     (let labels = (case labels0 of None \<Rightarrow> [] | Some m \<Rightarrow> m);
          labelsJSON = json_Marshal_strmap L (labelsSorted labels);
          payload = showNat (unat sourceID) @ ''|'' @ title @ ''|''
                      @ labelsJSON @ disambiguator labels resultIndex
      in hexEncode (Sum256 L payload))"

definition Key :: "golib \<Rightarrow> uint \<Rightarrow> string \<Rightarrow> strmap option \<Rightarrow> string" where
  "Key L sourceID title labels = keyWithDisambiguator L sourceID title labels (- 1)"

definition KeyForSeries :: "golib \<Rightarrow> uint \<Rightarrow> string \<Rightarrow> strmap option \<Rightarrow> int \<Rightarrow> string" where
  "KeyForSeries L sourceID title labels resultIndex =
     keyWithDisambiguator L sourceID title labels resultIndex"

text \<open>
  The canonical JSON of a label map in the specification's words: the key-value pairs in
  the lexicographic order of their keys, as \<open>{"k":"v",...}\<close>.
\<close>

definition canonicalJSON :: "golib \<Rightarrow> strmap \<Rightarrow> string" where
  "canonicalJSON L labels =
     ''{'' @ strings_Join
               (map (\<lambda>(k, v). Marshal_string L k @ '':'' @ Marshal_string L v) (sort_key fst labels))
               '','' @ ''}''"

section \<open>Stored rows (models)\<close>

text \<open>
  \<open>models.Alert\<close>. The columns \<open>Raw\<close> (never written by the code modelled here) and
  \<open>UpdatedAt\<close> (stamped by the ORM on every write) are left out.
\<close>

record Alert =
  a_ID :: string
  a_SourceID :: uint
  a_SourceType :: string
  a_ExternalID :: string
  a_Title :: string
  a_Severity :: string
  a_Status :: string
  a_FiringAt :: instant
  a_ResolvedAt :: "instant option"
  a_Labels :: string
  a_Annotations :: string
  a_CreatedAt :: instant

text \<open>\<open>models.Rule\<close>: the columns the scheduler and the engine read.\<close>

record Rule =
  r_ID :: uint
  r_Name :: string
  r_DatasourceIDs :: string
  r_MatchLabels :: string
  r_MatchSeverity :: string
  r_ChannelIDs :: string
  r_Duration :: string
  r_ExcludeWindows :: string
  r_RecoveryNotify :: bool
  r_SendInterval :: string
  r_AggregationEnabled :: bool
  r_AggregateBy :: string
  r_AggregateWindow :: string
  r_Suppression :: string
  r_Thresholds :: string

text \<open>\<open>models.Channel\<close>, keyed by its id in the table.\<close>

record Channel =
  ch_Type :: string
  ch_Config :: string
  ch_Enabled :: bool

text \<open>\<open>models.AlertSendRecord\<close>; \<open>CreatedAt\<close> is stamped by the ORM when the row is created.\<close>

record AlertSendRecord =
  sr_AlertID :: string
  sr_ChannelID :: uint
  sr_Success :: bool
  sr_Error :: string
  sr_CreatedAt :: instant

section \<open>Notification engine\<close>

text \<open>One call of \<open>sender.Send(channelType, config, title, body, isRecovery)\<close>.\<close>

record send_call =
  call_Type :: string
  call_Config :: string
  call_Title :: string
  call_Body :: string
  call_IsRecovery :: bool

text \<open>
  The state the engine works on: the alerts, channels, send-record and silence tables of
  the store (a silence is a pair of \<open>alert_id\<close> and \<open>silence_until\<close>), the process-local
  maps \<open>suppressionWindows\<close> and \<open>aggLastSent\<close> (a missing key reads as the zero instant), and
  the log of the calls made to the channel sender.
  A query that fails is taken as one that finds no row: wherever the engine looks at the
  error of a query it takes the branch it takes for no row. A send record's \<open>Create\<close>,
  whose error the engine never looks at, stores the row.
\<close>

record engine_state =
  es_alerts :: "Alert list"
  es_channels :: "uint \<Rightarrow> Channel option"
  es_records :: "AlertSendRecord list"
  es_silences :: "(string \<times> instant) list"
  es_suppression :: "uint \<Rightarrow> instant"
  es_aggLastSent :: "string \<Rightarrow> instant"
  es_sent :: "send_call list"

text \<open>
  What one pass of a channel loop takes from outside: the clock reading of its
  rate-limit or recovery check, the result of \<open>sender.Send\<close> (\<open>None\<close> is a nil error,
  \<open>Some msg\<close> an error with that text), and the clock reading the ORM stamps on the send
  record it creates.
\<close>

record chan_env =
  ce_now_check :: instant
  ce_send :: "string option"
  ce_now_create :: instant

text \<open>
  What the processing of one rule takes from outside: a clock reading for each
  \<open>time.Now()\<close> it reaches, the local minute of the day (\<open>now.Hour()*60 + now.Minute()\<close>),
  and the environment of each pass of its channel loop.
\<close>

record rule_env =
  re_now_window :: instant
  re_now_duration :: instant
  re_hm :: int
  re_now_suppressed :: instant
  re_sendAt :: instant
  re_now_since :: instant
  re_now_lastSent :: instant
  re_now_mark :: instant
  re_chan :: "nat \<Rightarrow> chan_env"

text \<open>
  The texts of a notification: \<open>stripSystemAlertPrefix\<close> (it removes a non-ASCII prefix
  and trims Unicode white space) and the body, which is \<open>resolveBody\<close> (template
  rendering) followed by the send-time line. The properties below do not depend on what
  the texts say, so both are parameters.
\<close>

record texts =
  stripSystemAlertPrefix :: "string \<Rightarrow> string"
  notification_body :: "Rule \<Rightarrow> Alert \<Rightarrow> strmap \<Rightarrow> bool \<Rightarrow> instant \<Rightarrow> string"

definition durationSatisfied :: "golib \<Rightarrow> instant \<Rightarrow> Rule \<Rightarrow> Alert \<Rightarrow> bool" where
  "durationSatisfied L now r a =
     (if r_Duration r = [] \<or> r_Duration r = ''0'' then True
      else case ParseDuration L (r_Duration r) of
             None \<Rightarrow> True
           | Some d \<Rightarrow> time_Sub now (a_FiringAt a) \<ge> d)"

definition matchRule :: "golib \<Rightarrow> Rule \<Rightarrow> Alert \<Rightarrow> strmap \<Rightarrow> bool" where
  "matchRule L r a labels =
     (if r_MatchSeverity r \<noteq> [] \<and> r_MatchSeverity r \<noteq> a_Severity a then False
      else if r_DatasourceIDs r \<noteq> [] \<and> fst (Unmarshal_uints L (r_DatasourceIDs r))
              \<and> length (snd (Unmarshal_uints L (r_DatasourceIDs r))) > 0
              \<and> a_SourceID a \<notin> set (snd (Unmarshal_uints L (r_DatasourceIDs r))) then False
      else if r_MatchLabels r \<noteq> [] then
        (case Unmarshal_strmap L (r_MatchLabels r) of
           (True, Some want) \<Rightarrow> list_all (\<lambda>(k, v). lookup labels k = v) want
         | _ \<Rightarrow> True)
      else True)"

definition parseHM :: "golib \<Rightarrow> string \<Rightarrow> int" where
  "parseHM L s =
     (case Sscanf_HM L s of
        None \<Rightarrow> - 1
      | Some (h, m) \<Rightarrow> if h < 0 \<or> h > 23 \<or> m < 0 \<or> m > 59 then - 1 else h * 60 + m)"

text \<open>The loop of \<open>inExcludeWindow\<close> over the windows, \<open>hm\<close> the local minute of the day.\<close>

fun in_windows :: "golib \<Rightarrow> int \<Rightarrow> (string \<times> string) list \<Rightarrow> bool" where
  "in_windows L hm [] = False"
| "in_windows L hm ((st, en) # ws) =
     (let startMin = parseHM L st; endMin = parseHM L en in
      if startMin < 0 \<or> endMin < 0 then in_windows L hm ws
      else if startMin \<le> endMin then
        (if hm \<ge> startMin \<and> hm < endMin then True else in_windows L hm ws)
      else
        (if hm \<ge> startMin \<or> hm < endMin then True else in_windows L hm ws))"

definition inExcludeWindow :: "golib \<Rightarrow> int \<Rightarrow> Rule \<Rightarrow> bool" where
  "inExcludeWindow L hm r =
     (if r_ExcludeWindows r = [] then False
      else case Unmarshal_windows L (r_ExcludeWindows r) of
             None \<Rightarrow> False
           | Some windows \<Rightarrow> if length windows = 0 then False else in_windows L hm windows)"

definition labelsMatch :: "strmap \<Rightarrow> strmap \<Rightarrow> bool" where
  "labelsMatch labels want = (list_all (\<lambda>(k, v). lookup labels k = v) want \<and> length want > 0)"

definition updateSuppressionWindow ::
  "golib \<Rightarrow> instant \<Rightarrow> Rule \<Rightarrow> strmap \<Rightarrow> engine_state \<Rightarrow> engine_state" where
  "updateSuppressionWindow L now r labels s =
     (if r_Suppression r = [] then s
      else case Unmarshal_suppression L (r_Suppression r) of
             None \<Rightarrow> s
           | Some cfg \<Rightarrow>
               if sc_Duration cfg = [] then s
               else if \<not> labelsMatch labels (sc_SourceLabels cfg) then s
               else (case ParseDuration L (sc_Duration cfg) of
                       None \<Rightarrow> s
                     | Some d \<Rightarrow> s\<lparr>es_suppression := (es_suppression s)(r_ID r := now + d)\<rparr>))"

definition suppressed :: "golib \<Rightarrow> instant \<Rightarrow> Rule \<Rightarrow> strmap \<Rightarrow> engine_state \<Rightarrow> bool" where
  "suppressed L now r labels s =
     (if r_Suppression r = [] then False
      else case Unmarshal_suppression L (r_Suppression r) of
             None \<Rightarrow> False
           | Some cfg \<Rightarrow>
               if length (sc_SuppressedLabels cfg) = 0 then False
               else if now > es_suppression s (r_ID r) then False
               else labelsMatch labels (sc_SuppressedLabels cfg))"

definition annotationValue :: "golib \<Rightarrow> Alert \<Rightarrow> string \<Rightarrow> string" where
  "annotationValue L alert key =
     (if a_Annotations alert = [] then []
      else case Unmarshal_strmap L (a_Annotations alert) of
             (False, _) \<Rightarrow> []
           | (True, None) \<Rightarrow> []
           | (True, Some ann) \<Rightarrow> lookup ann key)"

text \<open>
  The two counting queries over the send records: successful rows of the alert and the
  channel with \<open>created_at > since\<close>.
\<close>

definition success_since :: "AlertSendRecord list \<Rightarrow> string \<Rightarrow> uint \<Rightarrow> instant \<Rightarrow> nat" where
  "success_since records alertID chID since =
     length (filter (\<lambda>x. sr_AlertID x = alertID \<and> sr_ChannelID x = chID \<and> sr_Success x
                          \<and> sr_CreatedAt x > since) records)"

definition recoveryAlreadySent :: "instant \<Rightarrow> string \<Rightarrow> uint \<Rightarrow> engine_state \<Rightarrow> bool" where
  "recoveryAlreadySent now alertID chID s =
     (success_since (es_records s) alertID chID (now - 2 * minute) > 0)"

definition sendRateLimited :: "golib \<Rightarrow> instant \<Rightarrow> Rule \<Rightarrow> string \<Rightarrow> uint \<Rightarrow> engine_state \<Rightarrow> bool" where
  "sendRateLimited L now r alertID chID s =
     (if r_SendInterval r = [] \<or> r_SendInterval r = ''0'' then False
      else case ParseDuration L (r_SendInterval r) of
             None \<Rightarrow> False
           | Some d \<Rightarrow> success_since (es_records s) alertID chID (now - d) > 0)"

text \<open>\<open>db.Create(&models.AlertSendRecord{...})\<close>: the row is appended, stamped \<open>now\<close>.\<close>

definition create_record :: "instant \<Rightarrow> string \<Rightarrow> uint \<Rightarrow> bool \<Rightarrow> string \<Rightarrow> engine_state \<Rightarrow> engine_state" where
  "create_record now alertID chID ok err s =
     s\<lparr>es_records := es_records s @
         [\<lparr>sr_AlertID = alertID, sr_ChannelID = chID, sr_Success = ok, sr_Error = err,
           sr_CreatedAt = now\<rparr>]\<rparr>"

definition call_sender :: "Channel \<Rightarrow> string \<Rightarrow> string \<Rightarrow> bool \<Rightarrow> engine_state \<Rightarrow> engine_state" where
  "call_sender ch title body isRecovery s =
     s\<lparr>es_sent := es_sent s @
         [\<lparr>call_Type = ch_Type ch, call_Config = ch_Config ch, call_Title = title,
           call_Body = body, call_IsRecovery = isRecovery\<rparr>]\<rparr>"

text \<open>One pass of the recovery loop of \<open>ProcessAlert\<close> (for one channel id).\<close>

definition recovery_pass :: "chan_env \<Rightarrow> string \<Rightarrow> string \<Rightarrow> uint \<Rightarrow> engine_state \<Rightarrow> engine_state" where
  "recovery_pass e alertID body chID s =
     (if recoveryAlreadySent (ce_now_check e) alertID chID s then s
      else case es_channels s chID of
             None \<Rightarrow> s
           | Some ch \<Rightarrow>
               if \<not> ch_Enabled ch then s
               else (case ce_send e of
                       Some err \<Rightarrow>
                         create_record (ce_now_create e) alertID chID False err
                           (call_sender ch [] body True s)
                     | None \<Rightarrow>
                         create_record (ce_now_create e) alertID chID True []
                           (call_sender ch [] body True s)))"

fun recovery_loop ::
  "(nat \<Rightarrow> chan_env) \<Rightarrow> string \<Rightarrow> string \<Rightarrow> nat \<Rightarrow> uint list \<Rightarrow> engine_state \<Rightarrow> engine_state" where
  "recovery_loop E alertID body i [] s = s"
| "recovery_loop E alertID body i (chID # chIDs) s =
     recovery_loop E alertID body (Suc i) chIDs (recovery_pass (E i) alertID body chID s)"

text \<open>
  One pass of the dispatch loop, which \<open>ProcessAlert\<close> and \<open>sendAggregated\<close> both have
  (with the title and body each of them sends).
\<close>

definition dispatch_pass ::
  "golib \<Rightarrow> chan_env \<Rightarrow> Rule \<Rightarrow> string \<Rightarrow> string \<Rightarrow> string \<Rightarrow> uint \<Rightarrow> engine_state \<Rightarrow> engine_state" where
  "dispatch_pass L e r alertID title body chID s =
     (if sendRateLimited L (ce_now_check e) r alertID chID s then s
      else case es_channels s chID of
             None \<Rightarrow>
               create_record (ce_now_create e) alertID chID False ''channel not found or disabled'' s
           | Some ch \<Rightarrow>
               if \<not> ch_Enabled ch then
                 create_record (ce_now_create e) alertID chID False ''channel not found or disabled'' s
               else (case ce_send e of
                       Some err \<Rightarrow>
                         create_record (ce_now_create e) alertID chID False err
                           (call_sender ch title body False s)
                     | None \<Rightarrow>
                         create_record (ce_now_create e) alertID chID True []
                           (call_sender ch title body False s)))"

fun dispatch_loop ::
  "golib \<Rightarrow> (nat \<Rightarrow> chan_env) \<Rightarrow> Rule \<Rightarrow> string \<Rightarrow> string \<Rightarrow> string \<Rightarrow> nat \<Rightarrow> uint list
    \<Rightarrow> engine_state \<Rightarrow> engine_state" where
  "dispatch_loop L E r alertID title body i [] s = s"
| "dispatch_loop L E r alertID title body i (chID # chIDs) s =
     dispatch_loop L E r alertID title body (Suc i) chIDs
       (dispatch_pass L (E i) r alertID title body chID s)"

text \<open>
  Spacing of the send records, in the specification's words: any two successful records
  of the alert and the channel, one created after the other, lie at least \<open>d\<close> apart.
\<close>

definition success_for :: "string \<Rightarrow> uint \<Rightarrow> AlertSendRecord \<Rightarrow> bool" where
  "success_for alertID chID x = (sr_AlertID x = alertID \<and> sr_ChannelID x = chID \<and> sr_Success x)"

definition spaced :: "duration \<Rightarrow> string \<Rightarrow> uint \<Rightarrow> AlertSendRecord list \<Rightarrow> bool" where
  "spaced d alertID chID recs =
     (\<forall>j < length recs. \<forall>i < j.
        success_for alertID chID (recs ! i) \<and> success_for alertID chID (recs ! j)
          \<longrightarrow> sr_CreatedAt (recs ! i) + d \<le> sr_CreatedAt (recs ! j))"

text \<open>Aggregation: the label keys left out when two alerts are compared for their type.\<close>

definition aggregationDimensionKeys :: "golib \<Rightarrow> string \<Rightarrow> string list" where
  "aggregationDimensionKeys L aggregateBy =
     (if ToLower L aggregateBy = ''hostname'' then [''hostname'', ''host'', ''instance'']
      else if ToLower L aggregateBy = ''ip'' then [''ip'', ''instance'']
      else if ToLower L aggregateBy = ''port'' then [''port'', ''instance'']
      else [aggregateBy])"

definition typeFingerprint :: "golib \<Rightarrow> strmap \<Rightarrow> string \<Rightarrow> string" where
  "typeFingerprint L labels aggregateBy =
     (let exclude = aggregationDimensionKeys L aggregateBy;
          copied = filter (\<lambda>(k, v). k \<notin> set exclude) labels;
          keys = sort (map fst copied)
      in concat (map (\<lambda>k. k @ ''='' @ lookup copied k @ '';'') keys))"

text \<open>\<open>strings.Split(v, ":")[0]\<close> and the text after the last colon.\<close>

definition before_colon :: "string \<Rightarrow> string" where
  "before_colon v = takeWhile (\<lambda>c. c \<noteq> CHR '':'') v"

definition after_last_colon :: "string \<Rightarrow> string" where
  "after_last_colon v = rev (takeWhile (\<lambda>c. c \<noteq> CHR '':'') (rev v))"

definition aggregationKey :: "golib \<Rightarrow> strmap \<Rightarrow> string \<Rightarrow> string" where
  "aggregationKey L labels aggregateBy =
     (if ToLower L aggregateBy = ''hostname'' then
        (if lookup labels ''hostname'' \<noteq> [] then lookup labels ''hostname''
         else if lookup labels ''host'' \<noteq> [] then lookup labels ''host''
         else if lookup labels ''instance'' \<noteq> [] then before_colon (lookup labels ''instance'')
         else lookup labels ''instance'')
      else if ToLower L aggregateBy = ''ip'' then
        (if lookup labels ''ip'' \<noteq> [] then lookup labels ''ip''
         else before_colon (lookup labels ''instance''))
      else if ToLower L aggregateBy = ''port'' then
        (if lookup labels ''port'' \<noteq> [] then lookup labels ''port''
         else if lookup labels ''instance'' \<noteq> []
                 \<and> CHR '':'' \<in> set (lookup labels ''instance'')
                 \<and> after_last_colon (lookup labels ''instance'') \<noteq> []
              then after_last_colon (lookup labels ''instance'')
         else [])
      else lookup labels aggregateBy)"

definition labelsSameType :: "golib \<Rightarrow> strmap \<Rightarrow> strmap \<Rightarrow> string \<Rightarrow> bool" where
  "labelsSameType L a b aggregateBy =
     (let exclude = aggregationDimensionKeys L aggregateBy in
      list_all (\<lambda>(k, v). k \<in> set exclude \<or> lookup b k = v) a
      \<and> list_all (\<lambda>(k, v). k \<in> set exclude \<or> lookup a k = lookup b k) b)"

text \<open>
  The loop of \<open>sendAggregated\<close> over the candidates: the aggregation keys of the other
  alerts that match the rule and have the type of the triggering alert.
\<close>

fun candidate_keys :: "golib \<Rightarrow> Rule \<Rightarrow> Alert \<Rightarrow> strmap \<Rightarrow> Alert list \<Rightarrow> string list" where
  "candidate_keys L r alert labels [] = []"
| "candidate_keys L r alert labels (a # candidates) =
     (if a_ID a = a_ID alert then candidate_keys L r alert labels candidates
      else case snd (Unmarshal_strmap L (a_Labels a)) of
             None \<Rightarrow> candidate_keys L r alert labels candidates
           | Some la \<Rightarrow>
               if \<not> matchRule L r a la then candidate_keys L r alert labels candidates
               else if \<not> labelsSameType L labels la (r_AggregateBy r) then
                 candidate_keys L r alert labels candidates
               else if aggregationKey L la (r_AggregateBy r) \<noteq> [] then
                 aggregationKey L la (r_AggregateBy r) # candidate_keys L r alert labels candidates
               else candidate_keys L r alert labels candidates)"

definition aggStateKey :: "golib \<Rightarrow> Rule \<Rightarrow> strmap \<Rightarrow> string" where
  "aggStateKey L r labels =
     showNat (unat (r_ID r)) @ ''_'' @ typeFingerprint L labels (r_AggregateBy r)"

definition sendAggregated ::
  "golib \<Rightarrow> rule_env \<Rightarrow> Rule \<Rightarrow> Alert \<Rightarrow> strmap \<Rightarrow> string \<Rightarrow> string \<Rightarrow> uint list
    \<Rightarrow> engine_state \<Rightarrow> engine_state" where
  "sendAggregated L e r alert labels title body channelIDs s =
     (let d = (case ParseDuration L (r_AggregateWindow r) of None \<Rightarrow> 5 * minute | Some d \<Rightarrow> d);
          since = re_now_since e - d;
          candidates = filter (\<lambda>a. a_FiringAt a \<ge> since \<and> a_Status a = ''firing'') (es_alerts s)
      in
      if length candidates = 0 then s
      else
        let aggKey = (if aggregationKey L labels (r_AggregateBy r) = [] then a_ID alert
                      else aggregationKey L labels (r_AggregateBy r));
            keysSeen = remdups (aggKey # candidate_keys L r alert labels candidates);
            lastSent = es_aggLastSent s (aggStateKey L r labels)
        in
        if lastSent \<noteq> 0 \<and> time_Sub (re_now_lastSent e) lastSent < d then s
        else
          let dimName = (if r_AggregateBy r = [] then ''items'' else r_AggregateBy r);
              aggTitle = title @ '' ('' @ showNat (length keysSeen) @ '' '' @ dimName @ '')'';
              aggBody = body @ [CHR 0x0A, CHR 0x0A] @ dimName @ '' list: ''
                          @ strings_Join (sort keysSeen) '', '';
              s' = dispatch_loop L (re_chan e) r (a_ID alert) aggTitle aggBody 0 channelIDs s
          in s'\<lparr>es_aggLastSent := (es_aggLastSent s')(aggStateKey L r labels := re_now_mark e)\<rparr>)"

text \<open>
  The body of the loop of \<open>ProcessAlert\<close> over the enabled rules, for one rule \<open>r\<close>;
  \<open>labels\<close> is the alert's label map as \<open>ProcessAlert\<close> decoded it. The call of
  \<open>tryCreateJiraTicket\<close> before the dispatch writes the ticket table and calls the ticket
  API only, which are not part of the state, and is left out.
\<close>

definition channelIDs_of :: "golib \<Rightarrow> Rule \<Rightarrow> Alert \<Rightarrow> uint list" where
  "channelIDs_of L r alert =
     (let thChStr = annotationValue L alert ''threshold_channel_ids'';
          channelIDs = (if thChStr \<noteq> [] then snd (Unmarshal_uints L thChStr) else [])
      in if length channelIDs = 0 then snd (Unmarshal_uints L (r_ChannelIDs r)) else channelIDs)"

definition processRule ::
  "golib \<Rightarrow> texts \<Rightarrow> rule_env \<Rightarrow> Rule \<Rightarrow> Alert \<Rightarrow> strmap \<Rightarrow> engine_state \<Rightarrow> engine_state" where
  "processRule L T e r alert labels s0 =
     (let s = updateSuppressionWindow L (re_now_window e) r labels s0 in
      if \<not> matchRule L r alert labels then s
      else
        let channelIDs = channelIDs_of L r alert in
        if length channelIDs = 0 then s
        else if a_Status alert = ''resolved'' \<and> r_RecoveryNotify r then
          recovery_loop (re_chan e) (a_ID alert)
            (notification_body T r alert labels True (re_sendAt e)) 0 channelIDs s
        else if a_Status alert \<noteq> ''firing'' then s
        else if \<not> durationSatisfied L (re_now_duration e) r alert then s
        else if inExcludeWindow L (re_hm e) r then s
        else if suppressed L (re_now_suppressed e) r labels s then s
        else
          let body = notification_body T r alert labels False (re_sendAt e);
              title = (if stripSystemAlertPrefix T (a_Title alert) = [] then ''Alert''
                       else stripSystemAlertPrefix T (a_Title alert))
          in
          if r_AggregationEnabled r \<and> r_AggregateBy r \<noteq> [] \<and> r_AggregateWindow r \<noteq> [] then
            sendAggregated L e r alert labels title body channelIDs s
          else dispatch_loop L (re_chan e) r (a_ID alert) title body 0 channelIDs s)"

text \<open>\<open>ProcessAlert\<close> decodes the alert's labels once; a nil map becomes the empty map.\<close>

definition alert_labels :: "golib \<Rightarrow> Alert \<Rightarrow> strmap" where
  "alert_labels L alert =
     (case snd (Unmarshal_strmap L (a_Labels alert)) of None \<Rightarrow> [] | Some m \<Rightarrow> m)"

text \<open>
  \<open>ProcessAlert\<close>: nothing happens for a silenced alert; otherwise the enabled rules,
  which the caller lists in the order of their priority, are processed one after the
  other. \<open>now\<close> is the clock reading of \<open>IsSilenced\<close>, \<open>E i\<close> the environment of the rule at
  position \<open>i\<close>.
\<close>

definition IsSilenced :: "instant \<Rightarrow> string \<Rightarrow> engine_state \<Rightarrow> bool" where
  "IsSilenced now alertID s =
     (length (filter (\<lambda>x. fst x = alertID \<and> snd x > now) (es_silences s)) > 0)"

fun rules_loop ::
  "golib \<Rightarrow> texts \<Rightarrow> (nat \<Rightarrow> rule_env) \<Rightarrow> nat \<Rightarrow> Rule list \<Rightarrow> Alert \<Rightarrow> strmap \<Rightarrow> engine_state
    \<Rightarrow> engine_state" where
  "rules_loop L T E i [] alert labels s = s"
| "rules_loop L T E i (r # rules) alert labels s =
     rules_loop L T E (Suc i) rules alert labels (processRule L T (E i) r alert labels s)"

definition ProcessAlert ::
  "golib \<Rightarrow> texts \<Rightarrow> instant \<Rightarrow> (nat \<Rightarrow> rule_env) \<Rightarrow> Rule list \<Rightarrow> Alert \<Rightarrow> engine_state
    \<Rightarrow> engine_state" where
  "ProcessAlert L T now E rules alert s =
     (if IsSilenced now (a_ID alert) s then s
      else rules_loop L T E 0 rules alert (alert_labels L alert) s)"

section \<open>Webhook ingress (inbound)\<close>

text \<open>
  One element of \<open>GenericWebhook.Alerts\<close> and of \<open>PrometheusWebhook.Alerts\<close>; a label or
  annotation map the payload leaves out is nil (\<open>None\<close>).
\<close>

record GenericAlert =
  ga_Title :: string
  ga_Severity :: string
  ga_Status :: string
  ga_Labels :: "strmap option"
  ga_Annotations :: "strmap option"
  ga_StartsAt :: string
  ga_EndsAt :: string
  ga_Fingerprint :: string

record PrometheusAlert =
  pa_Status :: string
  pa_Labels :: "strmap option"
  pa_Annotations :: "strmap option"
  pa_StartsAt :: string
  pa_EndsAt :: string
  pa_Fingerprint :: string

text \<open>
  What the handling of one payload alert takes from outside: the clock reading that
  stands in for a missing start time, the id \<open>uuid.New()\<close> mints, whether the \<open>Create\<close> of
  a new row succeeds, and the clock reading the ORM stamps on a created row.
\<close>

record webhook_env =
  we_now :: instant
  we_uuid :: string
  we_create_ok :: bool
  we_now_create :: instant

text \<open>\<open>json.Marshal\<close> of a label map that may be nil: a nil map is \<open>null\<close>.\<close>

definition json_Marshal_labels :: "golib \<Rightarrow> strmap option \<Rightarrow> string" where
  "json_Marshal_labels L m = (case m of None \<Rightarrow> ''null'' | Some m' \<Rightarrow> json_Marshal_strmap L m')"

text \<open>Reading a key of a map that may be nil.\<close>

definition lookup_nil :: "strmap option \<Rightarrow> string \<Rightarrow> string" where
  "lookup_nil m k = (case m of None \<Rightarrow> [] | Some m' \<Rightarrow> lookup m' k)"

text \<open>
  The alerts table. \<open>First\<close> orders by the primary key: of the rows that satisfy the
  condition it returns the one with the least id. \<open>Save\<close> writes every column of the row
  with the given id, and inserts the row when the table has none with that id.
  \<open>Create\<close> inserts the row. On an insert the ORM stamps a zero \<open>CreatedAt\<close> (\<open>stamp\<close>), in
  the table and in the caller's struct.
\<close>

definition db_First :: "(Alert \<Rightarrow> bool) \<Rightarrow> Alert list \<Rightarrow> Alert option" where
  "db_First P rows =
     (case filter P rows of
        [] \<Rightarrow> None
      | m # ms \<Rightarrow> Some (fold (\<lambda>x y. if a_ID x < a_ID y then x else y) ms m))"

definition stamp :: "instant \<Rightarrow> Alert \<Rightarrow> Alert" where
  "stamp now alert = alert\<lparr>a_CreatedAt := (if a_CreatedAt alert = 0 then now else a_CreatedAt alert)\<rparr>"

definition db_Save :: "instant \<Rightarrow> Alert \<Rightarrow> Alert list \<Rightarrow> Alert list" where
  "db_Save now alert rows =
     (if a_ID alert \<in> a_ID ` set rows
      then map (\<lambda>x. if a_ID x = a_ID alert then alert else x) rows
      else rows @ [stamp now alert])"

definition db_Create :: "Alert \<Rightarrow> Alert list \<Rightarrow> Alert list" where
  "db_Create alert rows = rows @ [alert]"

definition firing_row :: "uint \<Rightarrow> string \<Rightarrow> Alert \<Rightarrow> bool" where
  "firing_row sourceID externalID x =
     (a_SourceID x = sourceID \<and> a_ExternalID x = externalID \<and> a_Status x = ''firing'')"

text \<open>The end time and the start time both handlers derive from the payload.\<close>

definition resolvedAt_of :: "golib \<Rightarrow> string \<Rightarrow> instant option" where
  "resolvedAt_of L endsAt = (if endsAt \<noteq> [] then ParseRFC3339 L endsAt else None)"

definition firingAt_of :: "golib \<Rightarrow> instant \<Rightarrow> string \<Rightarrow> instant" where
  "firingAt_of L now startsAt =
     (let firingAt = (if startsAt \<noteq> [] then (case ParseRFC3339 L startsAt of None \<Rightarrow> 0 | Some t \<Rightarrow> t)
                      else 0)
      in if firingAt = 0 then now else firingAt)"

text \<open>
  The second half of the loop body, which \<open>GenericHandler.Serve\<close> and
  \<open>PrometheusHandler.Serve\<close> have word for word: the lookup of the firing row and the four
  branches. The result is the table, the alert handed to \<open>engine.ProcessAlert\<close> (none when
  the loop \<open>continue\<close>s after a failed \<open>Create\<close>), and whether \<open>created\<close> is counted up. The
  \<open>Save\<close> and the \<open>Create\<close> whose error the handlers do not look at store the row.
\<close>

definition store_alert ::
  "webhook_env \<Rightarrow> uint \<Rightarrow> string \<Rightarrow> string \<Rightarrow> string \<Rightarrow> string \<Rightarrow> string \<Rightarrow> instant
    \<Rightarrow> instant option \<Rightarrow> string \<Rightarrow> string \<Rightarrow> Alert list \<Rightarrow> Alert list \<times> Alert option \<times> bool" where
  "store_alert e sourceID sourceType externalID status title severity firingAt resolvedAt
      labelsJSON annotationsJSON rows =
     (case db_First (firing_row sourceID externalID) rows of
        Some found \<Rightarrow>
          if status = ''resolved'' then
            (let alert = found\<lparr>a_Status := ''resolved'', a_ResolvedAt := resolvedAt, a_Title := title,
                               a_Labels := labelsJSON, a_Annotations := annotationsJSON\<rparr>
             in (db_Save (we_now_create e) alert rows, Some alert, False))
          else
            (let alert = found\<lparr>a_Title := title, a_Severity := severity, a_FiringAt := firingAt,
                               a_Labels := labelsJSON, a_Annotations := annotationsJSON\<rparr>
             in (db_Save (we_now_create e) alert rows, Some alert, False))
      | None \<Rightarrow>
          if status = ''resolved'' then
            (let alert = \<lparr>a_ID = we_uuid e, a_SourceID = sourceID, a_SourceType = sourceType,
                          a_ExternalID = externalID, a_Title = title, a_Severity = severity,
                          a_Status = ''resolved'', a_FiringAt = firingAt, a_ResolvedAt = resolvedAt,
                          a_Labels = labelsJSON, a_Annotations = annotationsJSON, a_CreatedAt = 0\<rparr>
             in (db_Create (stamp (we_now_create e) alert) rows,
                 Some (stamp (we_now_create e) alert), False))
          else
            (let alert = \<lparr>a_ID = we_uuid e, a_SourceID = sourceID, a_SourceType = sourceType,
                          a_ExternalID = externalID, a_Title = title, a_Severity = severity,
                          a_Status = ''firing'', a_FiringAt = firingAt, a_ResolvedAt = None,
                          a_Labels = labelsJSON, a_Annotations = annotationsJSON, a_CreatedAt = 0\<rparr>
             in if \<not> we_create_ok e then (rows, None, False)
                else (db_Create (stamp (we_now_create e) alert) rows,
                      Some (stamp (we_now_create e) alert), True)))"

text \<open>\<open>GenericHandler.Serve\<close>, the loop body for one payload alert.\<close>

definition Generic_status :: "GenericAlert \<Rightarrow> string" where
  "Generic_status a = (if ga_Status a = [] then ''firing'' else ga_Status a)"

definition Generic_title :: "GenericAlert \<Rightarrow> string" where
  "Generic_title a = (if ga_Title a = [] then ''Alert'' else ga_Title a)"

definition Generic_severity :: "GenericAlert \<Rightarrow> string" where
  "Generic_severity a = (if ga_Severity a = [] then ''warning'' else ga_Severity a)"

definition Generic_externalID :: "golib \<Rightarrow> uint \<Rightarrow> GenericAlert \<Rightarrow> string" where
  "Generic_externalID L sourceID a =
     Key L sourceID (Generic_title a) (Some (case ga_Labels a of None \<Rightarrow> [] | Some m \<Rightarrow> m))"

definition GenericHandler_Serve_alert ::
  "golib \<Rightarrow> webhook_env \<Rightarrow> string \<Rightarrow> uint \<Rightarrow> GenericAlert \<Rightarrow> Alert list
    \<Rightarrow> Alert list \<times> Alert option \<times> bool" where
  "GenericHandler_Serve_alert L e sourceType sourceID a rows =
     store_alert e sourceID sourceType (Generic_externalID L sourceID a) (Generic_status a)
       (Generic_title a) (Generic_severity a) (firingAt_of L (we_now e) (ga_StartsAt a))
       (resolvedAt_of L (ga_EndsAt a)) (json_Marshal_labels L (ga_Labels a))
       (json_Marshal_labels L (ga_Annotations a)) rows"

text \<open>\<open>PrometheusHandler.Serve\<close>, the loop body for one payload alert.\<close>

definition Prometheus_status :: "PrometheusAlert \<Rightarrow> string" where
  "Prometheus_status a = (if pa_Status a = ''resolved'' then ''resolved'' else ''firing'')"

definition Prometheus_title :: "PrometheusAlert \<Rightarrow> string" where
  "Prometheus_title a =
     (if lookup_nil (pa_Annotations a) ''summary'' \<noteq> [] then lookup_nil (pa_Annotations a) ''summary''
      else if lookup_nil (pa_Annotations a) ''alertname'' \<noteq> []
           then lookup_nil (pa_Annotations a) ''alertname''
      else ''Alert'')"

definition Prometheus_severity :: "PrometheusAlert \<Rightarrow> string" where
  "Prometheus_severity a =
     (if lookup_nil (pa_Labels a) ''severity'' = [] then ''warning''
      else lookup_nil (pa_Labels a) ''severity'')"

definition Prometheus_externalID :: "golib \<Rightarrow> uint \<Rightarrow> PrometheusAlert \<Rightarrow> string" where
  "Prometheus_externalID L sourceID a = Key L sourceID (Prometheus_title a) (pa_Labels a)"

definition PrometheusHandler_Serve_alert ::
  "golib \<Rightarrow> webhook_env \<Rightarrow> string \<Rightarrow> uint \<Rightarrow> PrometheusAlert \<Rightarrow> Alert list
    \<Rightarrow> Alert list \<times> Alert option \<times> bool" where
  "PrometheusHandler_Serve_alert L e sourceType sourceID a rows =
     store_alert e sourceID sourceType (Prometheus_externalID L sourceID a) (Prometheus_status a)
       (Prometheus_title a) (Prometheus_severity a) (firingAt_of L (we_now e) (pa_StartsAt a))
       (resolvedAt_of L (pa_EndsAt a)) (json_Marshal_labels L (pa_Labels a))
       (json_Marshal_labels L (pa_Annotations a)) rows"

section \<open>Rule evaluation (scheduler)\<close>

text \<open>\<open>queryResult\<close>, the state the scheduler keeps for one series of a rule.\<close>

record queryResult =
  qr_Metric :: strmap
  qr_Value :: float64
  qr_Timestamp :: instant
  qr_AlertID :: string
  qr_Severity :: string
  qr_MissCount :: int

definition resolveGracePeriod :: int where
  "resolveGracePeriod = 3"

text \<open>
  \<open>math.Round\<close> rounds a number to the nearest integer, half away from zero, and leaves a
  NaN and the infinities as they are; its result is a \<open>float64\<close> whenever its argument is
  one. \<open>roundValue = math.Round(v*100) / 100\<close>, with the product and the quotient of the
  machine.
\<close>

fun math_Round :: "float64 \<Rightarrow> float64" where
  "math_Round (FNum x) =
     FNum (if x \<ge> 0 then real_of_int \<lfloor>x + 1 / 2\<rfloor> else - real_of_int \<lfloor>- x + 1 / 2\<rfloor>)"
| "math_Round v = v"

definition roundValue :: "golib \<Rightarrow> float64 \<Rightarrow> float64" where
  "roundValue L v = Float64_quo L (math_Round (Float64_mul L v (FNum 100))) (FNum 100)"

text \<open>One series of the query result: its metric (nil when absent) and \<open>query.GetValue\<close> of it.\<close>

record series =
  se_Metric :: "strmap option"
  se_Value :: float64

record Datasource =
  ds_ID :: uint
  ds_Type :: string

text \<open>
  The outcome of a write whose result the scheduler looks at: done, an error, or no
  error with \<open>RowsAffected = 0\<close>.
\<close>

datatype write_outcome = WriteOk | WriteError | WriteNoRows

text \<open>
  What the processing of one series takes from outside: the clock readings of
  \<open>time.Since(lastResult.Timestamp)\<close>, of \<open>FiringAt: time.Now()\<close>, of the ORM's stamp and of
  \<open>Timestamp: time.Now()\<close>; the id \<open>uuid.New()\<close> mints; the outcome of the \<open>Save\<close> or \<open>Create\<close>
  of the alert row, and whether the \<open>Save\<close> that retries a \<open>Create\<close> with no rows succeeds.
\<close>

record series_env =
  sv_now_since :: instant
  sv_now_firing :: instant
  sv_now_store :: instant
  sv_now_state :: instant
  sv_uuid :: string
  sv_write :: write_outcome
  sv_retry_ok :: bool

text \<open>
  The state of an evaluation: \<open>state.lastResults\<close> of the rule (a Go map, here the list of
  its entries, each key once), the alerts table, and the alerts handed to
  \<open>engine.ProcessAlertAsync\<close>, in the order of the calls.
\<close>

record sched_state =
  ss_lastResults :: "(string \<times> queryResult) list"
  ss_alerts :: "Alert list"
  ss_outbox :: "Alert list"

definition map_put :: "string \<Rightarrow> queryResult \<Rightarrow> (string \<times> queryResult) list \<Rightarrow> (string \<times> queryResult) list" where
  "map_put k v m =
     (if k \<in> fst ` set m then map (\<lambda>kv. if fst kv = k then (k, v) else kv) m else m @ [(k, v)])"

definition map_delete :: "string \<Rightarrow> (string \<times> queryResult) list \<Rightarrow> (string \<times> queryResult) list" where
  "map_delete k m = filter (\<lambda>kv. fst kv \<noteq> k) m"

text \<open>\<open>db.Where(...).Limit(1).Find(&row)\<close>: some row that satisfies the condition, if there is one.\<close>

definition db_Find :: "(Alert \<Rightarrow> bool) \<Rightarrow> Alert list \<Rightarrow> Alert option" where
  "db_Find P rows = find P rows"

definition formatMetric :: "strmap \<Rightarrow> string" where
  "formatMetric metric =
     (case map_of metric ''instance'' of
        Some instance \<Rightarrow> instance
      | None \<Rightarrow> (case map_of metric ''__name__'' of Some name \<Rightarrow> name | None \<Rightarrow> ''unknown''))"

text \<open>\<open>json.Marshal\<close> of a \<open>[]uint\<close>.\<close>

definition json_Marshal_uints :: "uint list \<Rightarrow> string" where
  "json_Marshal_uints ids = ''['' @ strings_Join (map (\<lambda>c. showNat (unat c)) ids) '','' @ '']''"

text \<open>
  The part of the loop body of \<open>queryPrometheus\<close> after the threshold filter, for the
  series at index \<open>i\<close> with its severity and annotations. It returns the state and the key
  the series put into \<open>currentKeys\<close>. Each \<open>continue\<close> after a failed write leaves
  \<open>lastResults\<close> as it was.
\<close>

definition process_series ::
  "golib \<Rightarrow> series_env \<Rightarrow> Rule \<Rightarrow> Datasource \<Rightarrow> int \<Rightarrow> strmap \<Rightarrow> float64 \<Rightarrow> string \<Rightarrow> strmap
    \<Rightarrow> sched_state \<Rightarrow> sched_state \<times> string" where
  "process_series L e rule ds i metric val severity annotations st =
     (let title = r_Name rule @ '': '' @ formatMetric metric;
          extKey = KeyForSeriesWithRule L (ds_ID ds) (r_ID rule) title (Some metric) i;
          hadResult = (map_of (ss_lastResults st) extKey \<noteq> None);
          lastResult = (case map_of (ss_lastResults st) extKey of
                          Some q \<Rightarrow> q
                        | None \<Rightarrow> \<lparr>qr_Metric = [], qr_Value = FNum 0, qr_Timestamp = 0,
                                    qr_AlertID = [], qr_Severity = [], qr_MissCount = 0\<rparr>);
          valueChanged = (\<not> hadResult \<or> f_ne (roundValue L (qr_Value lastResult)) (roundValue L val));
          needsReprocess = (hadResult \<and> \<not> valueChanged \<and> qr_AlertID lastResult \<noteq> []
                            \<and> time_Sub (sv_now_since e) (qr_Timestamp lastResult) \<ge> 60 * second)
      in
      if valueChanged \<or> needsReprocess then
        (let alertID =
               (if qr_AlertID lastResult \<noteq> [] then qr_AlertID lastResult
                else case db_Find (firing_row (ds_ID ds) extKey) (ss_alerts st) of
                       Some existingFiring \<Rightarrow>
                         if a_ID existingFiring \<noteq> [] then a_ID existingFiring else sv_uuid e
                     | None \<Rightarrow> sv_uuid e);
             alert = \<lparr>a_ID = alertID, a_SourceID = ds_ID ds, a_SourceType = ds_Type ds,
                      a_ExternalID = extKey, a_Title = title, a_Severity = severity,
                      a_Status = ''firing'', a_FiringAt = sv_now_firing e, a_ResolvedAt = None,
                      a_Labels = json_Marshal_strmap L metric,
                      a_Annotations = json_Marshal_strmap L annotations, a_CreatedAt = 0\<rparr>;
             exists = db_Find (\<lambda>x. a_ID x = alertID \<and> a_ID x \<noteq> []) (ss_alerts st);
             written =
               (if \<not> hadResult then
                  (case exists of
                     Some ex \<Rightarrow>
                       (let alert1 = alert\<lparr>a_FiringAt := (if a_FiringAt ex \<noteq> 0 then a_FiringAt ex
                                                            else a_FiringAt alert),
                                           a_CreatedAt := a_CreatedAt ex\<rparr>
                        in if sv_write e = WriteError then None
                           else Some (db_Save (sv_now_store e) alert1 (ss_alerts st), alert1))
                   | None \<Rightarrow>
                       if sv_write e = WriteError then None
                       else if sv_write e = WriteNoRows then
                         (if \<not> sv_retry_ok e then None
                          else Some (db_Save (sv_now_store e) alert (ss_alerts st),
                                     stamp (sv_now_store e) alert))
                       else Some (db_Create (stamp (sv_now_store e) alert) (ss_alerts st),
                                  stamp (sv_now_store e) alert))
                else
                  (let alert1 = (case exists of
                                   Some existing \<Rightarrow> alert\<lparr>a_FiringAt := a_FiringAt existing,
                                                           a_CreatedAt := a_CreatedAt existing\<rparr>
                                 | None \<Rightarrow> alert)
                   in if sv_write e = WriteError then None
                      else Some (db_Save (sv_now_store e) alert1 (ss_alerts st), alert1)))
         in case written of
              None \<Rightarrow> (st, extKey)
            | Some (rows, handed) \<Rightarrow>
                (st\<lparr>ss_alerts := rows,
                    ss_outbox := ss_outbox st @ [handed],
                    ss_lastResults :=
                      map_put extKey
                        \<lparr>qr_Metric = metric, qr_Value = val, qr_Timestamp = sv_now_state e,
                         qr_AlertID = alertID, qr_Severity = severity, qr_MissCount = 0\<rparr>
                        (ss_lastResults st)\<rparr>,
                 extKey))
      else if hadResult \<and> qr_MissCount lastResult > 0 then
        (st\<lparr>ss_lastResults := map_put extKey (lastResult\<lparr>qr_MissCount := 0\<rparr>) (ss_lastResults st)\<rparr>,
         extKey)
      else (st, extKey))"

text \<open>
  The loop body of \<open>queryPrometheus\<close> for the series \<open>r\<close> at index \<open>i\<close>: the rule's
  default severity, the threshold filter (a series no level matches is passed over and
  puts no key into \<open>currentKeys\<close>), then the processing above.
\<close>

definition series_step ::
  "golib \<Rightarrow> series_env \<Rightarrow> Rule \<Rightarrow> Datasource \<Rightarrow> ThresholdLevel list option \<Rightarrow> int \<Rightarrow> series
    \<Rightarrow> sched_state \<times> string list \<Rightarrow> sched_state \<times> string list" where
  "series_step L e rule ds thresholds i r acc =
     (let metric = (case se_Metric r of None \<Rightarrow> [] | Some m \<Rightarrow> m);
          val = se_Value r;
          severity = (if r_MatchSeverity rule = [] then ''warning'' else r_MatchSeverity rule);
          annotations = [(''value'', Sprint_float L val)]
      in case thresholds of
           None \<Rightarrow>
             (let (st, k) = process_series L e rule ds i metric val severity annotations (fst acc)
              in (st, k # snd acc))
         | Some levels \<Rightarrow>
             (case MatchThreshold levels val of
                None \<Rightarrow> acc
              | Some m \<Rightarrow>
                  (let severity1 = (if tl_Severity m = [] then ''warning'' else tl_Severity m);
                       annotations1 =
                         (if length (tl_ChannelIDs m) > 0
                          then annotations @ [(''threshold_channel_ids'', json_Marshal_uints (tl_ChannelIDs m))]
                          else annotations);
                       (st, k) = process_series L e rule ds i metric val severity1 annotations1 (fst acc)
                   in (st, k # snd acc))))"

fun series_loop ::
  "golib \<Rightarrow> (nat \<Rightarrow> series_env) \<Rightarrow> Rule \<Rightarrow> Datasource \<Rightarrow> ThresholdLevel list option \<Rightarrow> nat
    \<Rightarrow> series list \<Rightarrow> sched_state \<times> string list \<Rightarrow> sched_state \<times> string list" where
  "series_loop L E rule ds thresholds i [] acc = acc"
| "series_loop L E rule ds thresholds i (r # rs) acc =
     series_loop L E rule ds thresholds (Suc i) rs
       (series_step L (E i) rule ds thresholds (int i) r acc)"

text \<open>
  The body of the resolution loop for one entry of \<open>lastResults\<close>; \<open>now\<close> is the clock
  reading that becomes \<open>ResolvedAt\<close>. The \<open>Save\<close> of the resolved row, whose error the
  scheduler does not look at, stores the row.
\<close>

definition resolve_step ::
  "instant \<Rightarrow> string list \<Rightarrow> string \<times> queryResult \<Rightarrow> sched_state \<Rightarrow> sched_state" where
  "resolve_step now currentKeys entry st =
     (if fst entry \<in> set currentKeys then st
      else
        let lastResult = (snd entry)\<lparr>qr_MissCount := qr_MissCount (snd entry) + 1\<rparr>;
            st1 = st\<lparr>ss_lastResults := map_put (fst entry) lastResult (ss_lastResults st)\<rparr>
        in
        if qr_MissCount lastResult < resolveGracePeriod then st1
        else
          let st2 =
                (if qr_AlertID lastResult \<noteq> [] then
                   (case db_First (\<lambda>x. a_ID x = qr_AlertID lastResult) (ss_alerts st1) of
                      Some alert \<Rightarrow>
                        if a_Status alert = ''firing'' then
                          (let alert1 = alert\<lparr>a_Status := ''resolved'', a_ResolvedAt := Some now\<rparr>
                           in st1\<lparr>ss_alerts := db_Save now alert1 (ss_alerts st1),
                                  ss_outbox := ss_outbox st1 @ [alert1]\<rparr>)
                        else st1
                    | None \<Rightarrow> st1)
                 else st1)
          in st2\<lparr>ss_lastResults := map_delete (fst entry) (ss_lastResults st2)\<rparr>)"

fun resolve_loop ::
  "(nat \<Rightarrow> instant) \<Rightarrow> string list \<Rightarrow> nat \<Rightarrow> (string \<times> queryResult) list \<Rightarrow> sched_state \<Rightarrow> sched_state" where
  "resolve_loop N currentKeys i [] st = st"
| "resolve_loop N currentKeys i (entry # entries) st =
     resolve_loop N currentKeys (Suc i) entries (resolve_step (N i) currentKeys entry st)"

text \<open>
  \<open>Scheduler.queryPrometheus\<close> from the query result on (\<open>results\<close> is
  \<open>result.Data.Result\<close>): the series loop, then the resolution loop over the entries
  \<open>lastResults\<close> has when that loop starts.
\<close>

definition queryPrometheus ::
  "golib \<Rightarrow> (nat \<Rightarrow> series_env) \<Rightarrow> (nat \<Rightarrow> instant) \<Rightarrow> Rule \<Rightarrow> Datasource \<Rightarrow> series list
    \<Rightarrow> sched_state \<Rightarrow> sched_state" where
  "queryPrometheus L E N rule ds results st =
     (let thresholds = ParseThresholds L (r_Thresholds rule);
          (st1, currentKeys) = series_loop L E rule ds thresholds 0 results (st, [])
      in resolve_loop N currentKeys 0 (ss_lastResults st1) st1)"

section \<open>Rate limiter of the Lark sender\<close>

text \<open>
  \<open>larkRateLimiter\<close> and the limiter of the package, \<open>larkLimiter\<close>, whose \<open>lastTime\<close> is
  the zero time. The mutex is released while the caller sleeps; what other callers do in
  that interval is not modelled.
\<close>

record larkRateLimiter =
  rl_tokens :: float64
  rl_lastTime :: instant
  rl_rate :: float64
  rl_burst :: float64

definition larkLimiter :: larkRateLimiter where
  "larkLimiter = \<lparr>rl_tokens = FNum 3, rl_lastTime = 0, rl_rate = FNum 5, rl_burst = FNum 3\<rparr>"

text \<open>
  The conversion \<open>time.Duration(x)\<close> of a \<open>float64\<close>: the fraction is discarded; the result
  is the implementation's when the number does not fit an \<open>int64\<close>.
\<close>

definition truncate_toward_zero :: "real \<Rightarrow> int" where
  "truncate_toward_zero x = (if x \<ge> 0 then \<lfloor>x\<rfloor> else \<lceil>x\<rceil>)"

fun Duration_of_float64 :: "golib \<Rightarrow> float64 \<Rightarrow> duration" where
  "Duration_of_float64 L (FNum x) =
     (if - (2 ^ 63) \<le> truncate_toward_zero x \<and> truncate_toward_zero x < 2 ^ 63
      then truncate_toward_zero x else Int64_out_of_range L (FNum x))"
| "Duration_of_float64 L v = Int64_out_of_range L v"

text \<open>
  The first half of \<open>acquire\<close>: \<open>elapsed\<close> is \<open>now.Sub(rl.lastTime).Seconds()\<close>;
  \<open>rl.tokens += elapsed * rl.rate\<close>, then the tokens are capped at \<open>burst\<close>.
\<close>

definition refill :: "golib \<Rightarrow> larkRateLimiter \<Rightarrow> instant \<Rightarrow> larkRateLimiter" where
  "refill L rl now =
     (let elapsed = Duration_Seconds L (time_Sub now (rl_lastTime rl));
          rl1 = rl\<lparr>rl_lastTime := now\<rparr>;
          rl2 = rl1\<lparr>rl_tokens := Float64_add_mul L (rl_tokens rl1) elapsed (rl_rate rl1)\<rparr>
      in if f_gt (rl_tokens rl2) (rl_burst rl2) then rl2\<lparr>rl_tokens := rl_burst rl2\<rparr> else rl2)"

text \<open>
  \<open>acquire\<close>: the limiter after the call, and the duration \<open>time.Sleep\<close> was called with
  (in nanoseconds), if it was. The decrement stands after the \<open>if\<close>, so both branches
  reach it.
\<close>

definition acquire :: "golib \<Rightarrow> larkRateLimiter \<Rightarrow> instant \<Rightarrow> larkRateLimiter \<times> duration option" where
  "acquire L rl now =
     (let rl2 = refill L rl now;
          (rl3, slept) =
            (if f_lt (rl_tokens rl2) (FNum 1) then
               (rl2\<lparr>rl_tokens := FNum 0\<rparr>,
                Some (Duration_of_float64 L
                        (Float64_mul L
                           (Float64_quo L (Float64_sub L (FNum 1) (rl_tokens rl2)) (rl_rate rl2))
                           (FNum (real_of_int second)))))
             else (rl2, None))
      in (rl3\<lparr>rl_tokens := Float64_sub L (rl_tokens rl3) (FNum 1)\<rparr>, slept))"

text \<open>The limiter of the package at a token count \<open>t\<close>, last called at \<open>l\<close>.\<close>

definition limiter_at :: "float64 \<Rightarrow> instant \<Rightarrow> larkRateLimiter" where
  "limiter_at t l = larkLimiter\<lparr>rl_tokens := t, rl_lastTime := l\<rparr>"

section \<open>Example values\<close>

text \<open>
  A library instance for the examples: each parser knows the few literals the examples
  use and rejects every other string.
\<close>

definition ex_thresholds :: "ThresholdLevel list" where
  "ex_thresholds =
     [\<lparr>tl_Operator = ''>='', tl_Value = FNum 90, tl_Severity = ''critical'', tl_ChannelIDs = [7]\<rparr>,
      \<lparr>tl_Operator = ''>='', tl_Value = FNum 80, tl_Severity = ''warning'', tl_ChannelIDs = [3]\<rparr>]"

definition ex_thresholds_json :: string where
  "ex_thresholds_json = ''[{\"operator\":\">=\",\"value\":90,\"severity\":\"critical\",\"channel_ids\":[7]},{\"operator\":\">=\",\"value\":80,\"severity\":\"warning\",\"channel_ids\":[3]}]''"

definition demo_ParseDuration :: "string \<Rightarrow> duration option" where
  "demo_ParseDuration s =
     (if s = ''5m'' then Some (5 * minute)
      else if s = ''2m'' then Some (2 * minute)
      else if s = ''30m'' then Some (30 * minute)
      else None)"

definition demo_ParseRFC3339 :: "string \<Rightarrow> instant option" where
  "demo_ParseRFC3339 s =
     (if s = ''1970-01-01T00:00:10Z'' then Some (62135596810 * second)
      else if s = ''1970-01-01T00:00:20Z'' then Some (62135596820 * second)
      else None)"

definition demo_Sscanf_HM :: "string \<Rightarrow> (int \<times> int) option" where
  "demo_Sscanf_HM s =
     (if s = ''22:00'' then Some (22, 0)
      else if s = ''08:00'' then Some (8, 0)
      else if s = ''09:30'' then Some (9, 30)
      else if s = ''25:00'' then Some (25, 0)
      else None)"

definition demo_Unmarshal_thresholds :: "string \<Rightarrow> ThresholdLevel list option" where
  "demo_Unmarshal_thresholds s =
     (if s = ex_thresholds_json then Some ex_thresholds
      else if s = ''[ ]'' then Some []
      else None)"

definition demo_Unmarshal_uints :: "string \<Rightarrow> bool \<times> uint list" where
  "demo_Unmarshal_uints s =
     (if s = ''[7]'' then (True, [7])
      else if s = ''[3]'' then (True, [3])
      else if s = ''[3,7]'' then (True, [3, 7])
      else (False, []))"

definition demo_Unmarshal_strmap :: "string \<Rightarrow> bool \<times> strmap option" where
  "demo_Unmarshal_strmap s =
     (if s = ''{}'' then (True, Some [])
      else if s = ''{\"job\":\"api\"}'' then (True, Some [(''job'', ''api'')])
      else if s = ''null'' then (True, None)
      else (False, None))"

definition demo_Unmarshal_windows :: "string \<Rightarrow> (string \<times> string) list option" where
  "demo_Unmarshal_windows s =
     (if s = ''[{\"start\":\"22:00\",\"end\":\"08:00\"}]'' then Some [(''22:00'', ''08:00'')]
      else if s = ''[{\"start\":\"08:00\",\"end\":\"22:00\"}]'' then Some [(''08:00'', ''22:00'')]
      else None)"

text \<open>
  The \<open>float64\<close> operations at the arguments of the examples, with the results of IEEE 754
  arithmetic (rounding to nearest); the quotients \<open>1 / 5\<close> and \<open>0.5 / 5\<close> are the
  \<open>float64\<close> numbers next to 0.2 and 0.1. In the sums below the product is exact, so a
  fused operation gives the same result.
\<close>

definition demo_Float64_mul :: "float64 \<Rightarrow> float64 \<Rightarrow> float64" where
  "demo_Float64_mul x y =
     (if x = FNum 91 \<and> y = FNum 100 then FNum 9100
      else if x = FNum 95 \<and> y = FNum 100 then FNum 9500
      else if x = FNum (3602879701896397 / 18014398509481984) \<and> y = FNum 1000000000
           then FNum 200000000
      else if x = FNum (3602879701896397 / 36028797018963968) \<and> y = FNum 1000000000
           then FNum 100000000
      else FNaN)"

definition demo_Float64_quo :: "float64 \<Rightarrow> float64 \<Rightarrow> float64" where
  "demo_Float64_quo x y =
     (if x = FNum 9100 \<and> y = FNum 100 then FNum 91
      else if x = FNum 9500 \<and> y = FNum 100 then FNum 95
      else if x = FNum 1 \<and> y = FNum 5 then FNum (3602879701896397 / 18014398509481984)
      else if x = FNum (1 / 2) \<and> y = FNum 5 then FNum (3602879701896397 / 36028797018963968)
      else FNaN)"

definition demo_Float64_sub :: "float64 \<Rightarrow> float64 \<Rightarrow> float64" where
  "demo_Float64_sub x y =
     (if x = FNum 0 \<and> y = FNum 1 then FNum (- 1)
      else if x = FNum 3 \<and> y = FNum 1 then FNum 2
      else if x = FNum 1 \<and> y = FNum 0 then FNum 1
      else if x = FNum 1 \<and> y = FNum (1 / 2) then FNum (1 / 2)
      else FNaN)"

definition demo_Float64_add_mul :: "float64 \<Rightarrow> float64 \<Rightarrow> float64 \<Rightarrow> float64" where
  "demo_Float64_add_mul x y z =
     (if x = FNum 3 \<and> y = FNum 1 \<and> z = FNum 5 then FNum 8
      else if x = FNum 0 \<and> y = FNum 0 \<and> z = FNum 5 then FNum 0
      else if x = FNum (1 / 2) \<and> y = FNum 0 \<and> z = FNum 5 then FNum (1 / 2)
      else FNaN)"

definition demo_Duration_Seconds :: "duration \<Rightarrow> float64" where
  "demo_Duration_Seconds d =
     (if d = 0 then FNum 0 else if d = 1000000000 then FNum 1 else FNaN)"

definition demo_lib :: golib where
  "demo_lib =
     \<lparr>ParseDuration = demo_ParseDuration,
      ParseRFC3339 = demo_ParseRFC3339,
      Sscanf_HM = demo_Sscanf_HM,
      Unmarshal_thresholds = demo_Unmarshal_thresholds,
      Unmarshal_uints = demo_Unmarshal_uints,
      Unmarshal_strmap = demo_Unmarshal_strmap,
      Unmarshal_windows = demo_Unmarshal_windows,
      Unmarshal_suppression = (\<lambda>s. None),
      Marshal_string = (\<lambda>s. [CHR 0x22] @ s @ [CHR 0x22]),
      Sprint_float = (\<lambda>v. ''?''),
      Sum256 = (\<lambda>s. s),
      ToLower = (\<lambda>s. s),
      Float64_mul = demo_Float64_mul,
      Float64_quo = demo_Float64_quo,
      Float64_sub = demo_Float64_sub,
      Float64_add_mul = demo_Float64_add_mul,
      Duration_Seconds = demo_Duration_Seconds,
      Int64_out_of_range = (\<lambda>v. - (2 ^ 63))\<rparr>"

text \<open>An environment that is the same at every position of a loop.\<close>

fun always :: "'a \<Rightarrow> nat \<Rightarrow> 'a" where
  "always x i = x"

text \<open>The miss counts of the entries of \<open>lastResults\<close>.\<close>

definition miss_counts :: "sched_state \<Rightarrow> int list" where
  "miss_counts st = map (\<lambda>kv. qr_MissCount (snd kv)) (ss_lastResults st)"

definition demo_texts :: texts where
  "demo_texts = \<lparr>stripSystemAlertPrefix = (\<lambda>t. t), notification_body = (\<lambda>r a labels rec sendAt. a_Title a)\<rparr>"

definition ex_alert :: Alert where
  "ex_alert =
     \<lparr>a_ID = ''a1'', a_SourceID = 1, a_SourceType = ''prometheus'', a_ExternalID = ''k1'',
      a_Title = ''disk full'', a_Severity = ''warning'', a_Status = ''firing'', a_FiringAt = 1000,
      a_ResolvedAt = None, a_Labels = ''{}'', a_Annotations = [], a_CreatedAt = 1000\<rparr>"

definition ex_rule :: Rule where
  "ex_rule =
     \<lparr>r_ID = 1, r_Name = ''disk'', r_DatasourceIDs = [], r_MatchLabels = [], r_MatchSeverity = [],
      r_ChannelIDs = ''[7]'', r_Duration = [], r_ExcludeWindows = [], r_RecoveryNotify = True,
      r_SendInterval = ''5m'', r_AggregationEnabled = False, r_AggregateBy = [],
      r_AggregateWindow = [], r_Suppression = [], r_Thresholds = []\<rparr>"

definition ex_channel :: Channel where
  "ex_channel = \<lparr>ch_Type = ''lark'', ch_Config = ''{}'', ch_Enabled = True\<rparr>"

definition ex_state :: engine_state where
  "ex_state =
     \<lparr>es_alerts = [ex_alert], es_channels = (\<lambda>c. if c = 7 then Some ex_channel else None),
      es_records = [], es_silences = [], es_suppression = (\<lambda>r. 0), es_aggLastSent = (\<lambda>k. 0), es_sent = []\<rparr>"

text \<open>An environment in which every clock reading is \<open>t\<close> and every send succeeds.\<close>

definition env_at :: "instant \<Rightarrow> int \<Rightarrow> rule_env" where
  "env_at t hm =
     \<lparr>re_now_window = t, re_now_duration = t, re_hm = hm, re_now_suppressed = t, re_sendAt = t,
      re_now_since = t, re_now_lastSent = t, re_now_mark = t,
      re_chan = (\<lambda>i. \<lparr>ce_now_check = t, ce_send = None, ce_now_create = t\<rparr>)\<rparr>"

definition ex_rule_night :: Rule where
  "ex_rule_night = ex_rule\<lparr>r_ExcludeWindows := ''[{\"start\":\"22:00\",\"end\":\"08:00\"}]''\<rparr>"

definition ex_rule_malformed :: Rule where
  "ex_rule_malformed = ex_rule\<lparr>r_Duration := ''5 minutes'', r_SendInterval := ''five''\<rparr>"

definition ex_rule_3 :: Rule where
  "ex_rule_3 = ex_rule\<lparr>r_ChannelIDs := ''[3]''\<rparr>"

definition ex_rule_agg :: Rule where
  "ex_rule_agg = ex_rule\<lparr>r_AggregationEnabled := True, r_AggregateBy := ''hostname'',
     r_AggregateWindow := ''5m'', r_SendInterval := []\<rparr>"

definition ex_alert_resolved :: Alert where
  "ex_alert_resolved = ex_alert\<lparr>a_Status := ''resolved'', a_ResolvedAt := Some 2000\<rparr>"

text \<open>An environment in which every clock reading is \<open>t\<close> and every send fails.\<close>

definition env_failing :: "instant \<Rightarrow> rule_env" where
  "env_failing t =
     (env_at t 0)\<lparr>re_chan := (\<lambda>i. \<lparr>ce_now_check = t, ce_send = Some ''timeout'', ce_now_create = t\<rparr>)\<rparr>"

definition ex_push :: GenericAlert where
  "ex_push =
     \<lparr>ga_Title = ''disk full'', ga_Severity = ''critical'', ga_Status = ''firing'',
      ga_Labels = Some [(''job'', ''api'')], ga_Annotations = None, ga_StartsAt = [],
      ga_EndsAt = [], ga_Fingerprint = []\<rparr>"

definition ex_row :: Alert where
  "ex_row = ex_alert\<lparr>a_SourceType := ''elasticsearch'',
                      a_ExternalID := Generic_externalID demo_lib 1 ex_push\<rparr>"

definition ex_wenv :: webhook_env where
  "ex_wenv = \<lparr>we_now = 9000, we_uuid = ''u1'', we_create_ok = True, we_now_create = 9001\<rparr>"

text \<open>The same environment ten minutes after instant 1000, and a rule with a duration.\<close>

definition ex_wenv_late :: webhook_env where
  "ex_wenv_late = ex_wenv\<lparr>we_now := 1000 + 10 * minute\<rparr>"

definition ex_rule_5m :: Rule where
  "ex_rule_5m = ex_rule\<lparr>r_Duration := ''5m''\<rparr>"

definition ex_ds :: Datasource where
  "ex_ds = \<lparr>ds_ID = 1, ds_Type = ''prometheus''\<rparr>"

definition ex_series :: "real \<Rightarrow> series" where
  "ex_series v = \<lparr>se_Metric = Some [(''instance'', ''h1'')], se_Value = FNum v\<rparr>"

definition ex_key :: string where
  "ex_key = KeyForSeriesWithRule demo_lib 1 1 ''disk: h1'' (Some [(''instance'', ''h1'')]) 0"

text \<open>
  Environments of an evaluation in which every clock reading is \<open>t\<close>: one whose writes
  succeed, one whose writes fail.
\<close>

definition senv_ok :: "instant \<Rightarrow> nat \<Rightarrow> series_env" where
  "senv_ok t i =
     \<lparr>sv_now_since = t, sv_now_firing = t, sv_now_store = t, sv_now_state = t, sv_uuid = ''u1'',
      sv_write = WriteOk, sv_retry_ok = True\<rparr>"

definition senv_failing :: "instant \<Rightarrow> nat \<Rightarrow> series_env" where
  "senv_failing t i = (senv_ok t i)\<lparr>sv_write := WriteError\<rparr>"

definition ex_sched0 :: sched_state where
  "ex_sched0 = \<lparr>ss_lastResults = [], ss_alerts = [], ss_outbox = []\<rparr>"

definition ex_alert_u1 :: "instant \<Rightarrow> Alert" where
  "ex_alert_u1 t =
     \<lparr>a_ID = ''u1'', a_SourceID = 1, a_SourceType = ''prometheus'', a_ExternalID = ex_key,
      a_Title = ''disk: h1'', a_Severity = ''warning'', a_Status = ''firing'', a_FiringAt = t,
      a_ResolvedAt = None, a_Labels = json_Marshal_strmap demo_lib [(''instance'', ''h1'')],
      a_Annotations = json_Marshal_strmap demo_lib [(''value'', ''?'')], a_CreatedAt = t\<rparr>"

definition ex_entry :: "real \<Rightarrow> instant \<Rightarrow> int \<Rightarrow> queryResult" where
  "ex_entry v t m =
     \<lparr>qr_Metric = [(''instance'', ''h1'')], qr_Value = FNum v, qr_Timestamp = t,
      qr_AlertID = ''u1'', qr_Severity = ''warning'', qr_MissCount = m\<rparr>"

text \<open>
  Five evaluations of the rule, one minute apart: the series is present, absent, absent,
  present with a new value while the store rejects the write, and absent.
\<close>

definition ex_trace3 :: sched_state where
  "ex_trace3 =
     queryPrometheus demo_lib (senv_ok (3 * minute)) (always (3 * minute)) ex_rule ex_ds []
       (queryPrometheus demo_lib (senv_ok (2 * minute)) (always (2 * minute)) ex_rule ex_ds []
         (queryPrometheus demo_lib (senv_ok minute) (always minute) ex_rule ex_ds
            [ex_series 91] ex_sched0))"

definition ex_trace4 :: sched_state where
  "ex_trace4 =
     queryPrometheus demo_lib (senv_failing (4 * minute)) (always (4 * minute)) ex_rule ex_ds
       [ex_series 95] ex_trace3"

definition ex_trace5 :: sched_state where
  "ex_trace5 =
     queryPrometheus demo_lib (senv_ok (5 * minute)) (always (5 * minute)) ex_rule ex_ds []
       ex_trace4"

definition ex_prom_push :: PrometheusAlert where
  "ex_prom_push =
     \<lparr>pa_Status = ''firing'', pa_Labels = Some [(''job'', ''api'')],
      pa_Annotations = Some [(''summary'', ''disk full'')],
      pa_StartsAt = ''1970-01-01T00:00:20Z'', pa_EndsAt = [], pa_Fingerprint = []\<rparr>"

definition ex_prom_row :: Alert where
  "ex_prom_row = ex_alert\<lparr>a_FiringAt := 62135596810 * second,
                           a_ExternalID := Prometheus_externalID demo_lib 1 ex_prom_push\<rparr>"

chapter \<open>Properties\<close>

section \<open>Properties of the threshold levels\<close>

lemma MatchThreshold_None_iff:
  "MatchThreshold levels v = None \<longleftrightarrow> (\<forall>i < length levels. \<not> matched (levels ! i) v)"
proof (induction levels)
  case Nil
  show ?case by simp
next
  case (Cons l levels)
  show ?case
  proof (cases "matched l v")
    case True
    then show ?thesis by auto
  next
    case False
    have "(\<forall>i < length (l # levels). \<not> matched ((l # levels) ! i) v)
          \<longleftrightarrow> (\<forall>i < length levels. \<not> matched (levels ! i) v)"
      using False by (auto simp: nth_Cons split: nat.splits)
    with False Cons.IH show ?thesis by simp
  qed
qed

lemma MatchThreshold_Some_first:
  "MatchThreshold levels v = Some l \<Longrightarrow>
     \<exists>i < length levels. levels ! i = l \<and> matched l v \<and> (\<forall>j < i. \<not> matched (levels ! j) v)"
proof (induction levels)
  case Nil
  then show ?case by simp
next
  case (Cons a levels)
  show ?case
  proof (cases "matched a v")
    case True
    with Cons.prems have "a = l" by simp
    with True show ?thesis by (intro exI [of _ 0]) simp
  next
    case False
    with Cons.prems have "MatchThreshold levels v = Some l" by simp
    from Cons.IH [OF this] obtain i where
      i: "i < length levels" "levels ! i = l" "matched l v" "\<forall>j < i. \<not> matched (levels ! j) v"
      by blast
    have "\<forall>j < Suc i. \<not> matched ((a # levels) ! j) v"
      using False i(4) by (auto simp: nth_Cons split: nat.splits)
    with i show ?thesis by (intro exI [of _ "Suc i"]) simp
  qed
qed

lemma MatchThreshold_first_Some:
  "i < length levels \<Longrightarrow> matched (levels ! i) v \<Longrightarrow> \<forall>j < i. \<not> matched (levels ! j) v \<Longrightarrow>
     MatchThreshold levels v = Some (levels ! i)"
proof (induction levels arbitrary: i)
  case Nil
  then show ?case by simp
next
  case (Cons a levels)
  show ?case
  proof (cases i)
    case 0
    with Cons.prems show ?thesis by simp
  next
    case (Suc k)
    from Cons.prems(3) Suc have na: "\<not> matched a v" by (auto dest: spec [of _ 0])
    have "\<forall>j < k. \<not> matched (levels ! j) v"
    proof (intro allI impI)
      fix j assume "j < k"
      then have "Suc j < i" using Suc by simp
      with Cons.prems(3) have "\<not> matched ((a # levels) ! Suc j) v" by blast
      then show "\<not> matched (levels ! j) v" by simp
    qed
    moreover have "k < length levels" "matched (levels ! k) v"
      using Cons.prems(1,2) Suc by simp_all
    ultimately have "MatchThreshold levels v = Some (levels ! k)" by (rule Cons.IH [rotated 2])
    with na Suc show ?thesis by simp
  qed
qed

lemma matched_operators:
  "tl_Operator l = ''>'' \<Longrightarrow> matched l v = f_gt v (tl_Value l)"
  "tl_Operator l = ''>='' \<Longrightarrow> matched l v = f_ge v (tl_Value l)"
  "tl_Operator l = ''<'' \<Longrightarrow> matched l v = f_lt v (tl_Value l)"
  "tl_Operator l = ''<='' \<Longrightarrow> matched l v = f_le v (tl_Value l)"
  "tl_Operator l = ''=='' \<Longrightarrow> matched l v = f_eq v (tl_Value l)"
  "tl_Operator l = ''!='' \<Longrightarrow> matched l v = f_ne v (tl_Value l)"
  "tl_Operator l \<notin> known_operators \<Longrightarrow> matched l v = f_gt v (tl_Value l)"
  by (simp_all add: matched_def known_operators_def)

lemma ParseThresholds_None_iff:
  "ParseThresholds L raw = None \<longleftrightarrow>
     raw = [] \<or> raw = ''[]'' \<or> raw = ''null'' \<or> Unmarshal_thresholds L raw = None
     \<or> Unmarshal_thresholds L raw = Some []"
  by (auto simp: ParseThresholds_def split: option.splits)

lemma ParseThresholds_Some:
  "ParseThresholds L raw = Some levels \<Longrightarrow> Unmarshal_thresholds L raw = Some levels \<and> levels \<noteq> []"
  by (auto simp: ParseThresholds_def split: option.splits if_splits)

text \<open>
  C3. Parsing yields none exactly for the raw strings \<open>""\<close>, \<open>"[]"\<close>, \<open>"null"\<close>, for a string
  the JSON decoder rejects and for a decoded list that is empty; any other string yields
  the decoded, non-empty list. Matching a list against an observed value returns the
  level of the lowest index whose comparison \<open>value OP level.value\<close> holds, and none exactly
  when no level's comparison holds. The comparison of a level is the IEEE comparison its
  operator names, and \<open>>\<close> for an operator outside the six.
\<close>

theorem C3_threshold_first_match:
  "(ParseThresholds L raw = None \<longleftrightarrow>
      raw = [] \<or> raw = ''[]'' \<or> raw = ''null'' \<or> Unmarshal_thresholds L raw = None
      \<or> Unmarshal_thresholds L raw = Some [])
   \<and> (\<forall>ls. ParseThresholds L raw = Some ls \<longrightarrow> Unmarshal_thresholds L raw = Some ls \<and> ls \<noteq> [])
   \<and> (MatchThreshold levels v = Some l \<longleftrightarrow>
        (\<exists>i < length levels. levels ! i = l \<and> matched (levels ! i) v
            \<and> (\<forall>j < i. \<not> matched (levels ! j) v)))
   \<and> (MatchThreshold levels v = None \<longleftrightarrow> (\<forall>i < length levels. \<not> matched (levels ! i) v))
   \<and> (tl_Operator k = ''>'' \<longrightarrow> matched k v = f_gt v (tl_Value k))
   \<and> (tl_Operator k = ''>='' \<longrightarrow> matched k v = f_ge v (tl_Value k))
   \<and> (tl_Operator k = ''<'' \<longrightarrow> matched k v = f_lt v (tl_Value k))
   \<and> (tl_Operator k = ''<='' \<longrightarrow> matched k v = f_le v (tl_Value k))
   \<and> (tl_Operator k = ''=='' \<longrightarrow> matched k v = f_eq v (tl_Value k))
   \<and> (tl_Operator k = ''!='' \<longrightarrow> matched k v = f_ne v (tl_Value k))
   \<and> (tl_Operator k \<notin> known_operators \<longrightarrow> matched k v = f_gt v (tl_Value k))"
proof -
  have some: "MatchThreshold levels v = Some l \<longleftrightarrow>
        (\<exists>i < length levels. levels ! i = l \<and> matched (levels ! i) v
            \<and> (\<forall>j < i. \<not> matched (levels ! j) v))"
  proof
    assume "MatchThreshold levels v = Some l"
    from MatchThreshold_Some_first [OF this] show
      "\<exists>i < length levels. levels ! i = l \<and> matched (levels ! i) v
          \<and> (\<forall>j < i. \<not> matched (levels ! j) v)"
      by auto
  next
    assume "\<exists>i < length levels. levels ! i = l \<and> matched (levels ! i) v
          \<and> (\<forall>j < i. \<not> matched (levels ! j) v)"
    then obtain i where "i < length levels" "levels ! i = l" "matched (levels ! i) v"
      "\<forall>j < i. \<not> matched (levels ! j) v" by blast
    with MatchThreshold_first_Some [of i levels v] show "MatchThreshold levels v = Some l"
      by simp
  qed
  show ?thesis
    using some ParseThresholds_None_iff [of L raw] ParseThresholds_Some [of L raw]
      MatchThreshold_None_iff [of levels v] matched_operators [of k v]
    by blast
qed

text \<open>
  The levels \<open>>= 90\<close> (critical) and \<open>>= 80\<close> (warning): the value 85 is graded by the
  second level, since the first does not hold; 70 matches no level; the raw string
  \<open>"[]"\<close> disables the thresholds.
\<close>

theorem C3_threshold_first_match_witness:
  "MatchThreshold ex_thresholds (FNum 85) = Some (ex_thresholds ! 1)
   \<and> MatchThreshold ex_thresholds (FNum 95) = Some (ex_thresholds ! 0)
   \<and> MatchThreshold ex_thresholds (FNum 70) = None
   \<and> ParseThresholds demo_lib ''[]'' = None
   \<and> ParseThresholds demo_lib ''[ ]'' = None
   \<and> ParseThresholds demo_lib ''not json'' = None
   \<and> ParseThresholds demo_lib ex_thresholds_json = Some ex_thresholds
   \<and> matched \<lparr>tl_Operator = ''=~'', tl_Value = FNum 1, tl_Severity = [], tl_ChannelIDs = []\<rparr> (FNum 2)"
proof -
  have m: "\<not> matched (ex_thresholds ! 0) (FNum 85)" "matched (ex_thresholds ! 1) (FNum 85)"
    "matched (ex_thresholds ! 0) (FNum 95)"
    "\<not> matched (ex_thresholds ! 0) (FNum 70)" "\<not> matched (ex_thresholds ! 1) (FNum 70)"
    by (simp_all add: ex_thresholds_def matched_def f_ge_def f_le_def)
  have len: "length ex_thresholds = 2" by (simp add: ex_thresholds_def)
  have a: "\<exists>i < length ex_thresholds. ex_thresholds ! i = ex_thresholds ! 1
      \<and> matched (ex_thresholds ! i) (FNum 85) \<and> (\<forall>j < i. \<not> matched (ex_thresholds ! j) (FNum 85))"
    using m len by (intro exI [of _ 1]) simp
  have b: "\<exists>i < length ex_thresholds. ex_thresholds ! i = ex_thresholds ! 0
      \<and> matched (ex_thresholds ! i) (FNum 95) \<and> (\<forall>j < i. \<not> matched (ex_thresholds ! j) (FNum 95))"
    using m len by (intro exI [of _ 0]) simp
  have c: "\<forall>i < length ex_thresholds. \<not> matched (ex_thresholds ! i) (FNum 70)"
    using m len by (auto simp: less_Suc_eq numeral_2_eq_2)
  have r1: "MatchThreshold ex_thresholds (FNum 85) = Some (ex_thresholds ! 1)"
    using C3_threshold_first_match [of demo_lib "''[]''" ex_thresholds "FNum 85" "ex_thresholds ! 1"] a
    by blast
  have r2: "MatchThreshold ex_thresholds (FNum 95) = Some (ex_thresholds ! 0)"
    using C3_threshold_first_match [of demo_lib "''[]''" ex_thresholds "FNum 95" "ex_thresholds ! 0"] b
    by blast
  have r3: "MatchThreshold ex_thresholds (FNum 70) = None"
    using C3_threshold_first_match [of demo_lib "''[]''" ex_thresholds "FNum 70"] c by blast
  have p1: "ParseThresholds demo_lib ''[]'' = None"
    using C3_threshold_first_match [of demo_lib "''[]''"] by blast
  have p2: "ParseThresholds demo_lib ''[ ]'' = None"
    using C3_threshold_first_match [of demo_lib "''[ ]''"]
    by (simp add: demo_lib_def demo_Unmarshal_thresholds_def ex_thresholds_json_def)
  have p3: "ParseThresholds demo_lib ''not json'' = None"
    using C3_threshold_first_match [of demo_lib "''not json''"]
    by (simp add: demo_lib_def demo_Unmarshal_thresholds_def ex_thresholds_json_def)
  have p4: "ParseThresholds demo_lib ex_thresholds_json = Some ex_thresholds"
    by (simp add: ParseThresholds_def demo_lib_def demo_Unmarshal_thresholds_def
        ex_thresholds_json_def ex_thresholds_def)
  have d: "matched \<lparr>tl_Operator = ''=~'', tl_Value = FNum 1, tl_Severity = [], tl_ChannelIDs = []\<rparr> (FNum 2)"
    using C3_threshold_first_match
      [of demo_lib "''[]''" ex_thresholds "FNum 2" undefined
          "\<lparr>tl_Operator = ''=~'', tl_Value = FNum 1, tl_Severity = [], tl_ChannelIDs = []\<rparr>"]
    by (simp add: known_operators_def f_gt_def)
  from r1 r2 r3 p1 p2 p3 p4 d show ?thesis by blast
qed

section \<open>Properties of the gates of the engine\<close>

lemma updateSuppressionWindow_frame:
  "es_alerts (updateSuppressionWindow L now r labels s) = es_alerts s"
  "es_records (updateSuppressionWindow L now r labels s) = es_records s"
  "es_sent (updateSuppressionWindow L now r labels s) = es_sent s"
  "es_channels (updateSuppressionWindow L now r labels s) = es_channels s"
  "es_aggLastSent (updateSuppressionWindow L now r labels s) = es_aggLastSent s"
  by (simp_all add: updateSuppressionWindow_def split: option.splits)

lemma parseHM_cases:
  "Sscanf_HM L x = None \<Longrightarrow> parseHM L x = - 1"
  "Sscanf_HM L x = Some (h, mi) \<Longrightarrow>
     parseHM L x = (if 0 \<le> h \<and> h \<le> 23 \<and> 0 \<le> mi \<and> mi \<le> 59 then h * 60 + mi else - 1)"
  by (auto simp: parseHM_def)

lemma parseHM_range: "parseHM L x = - 1 \<or> (0 \<le> parseHM L x \<and> parseHM L x < 1440)"
  by (auto simp: parseHM_def split: option.splits)

lemma in_windows_iff:
  "in_windows L m ws \<longleftrightarrow>
     (\<exists>w \<in> set ws. 0 \<le> parseHM L (fst w) \<and> 0 \<le> parseHM L (snd w)
        \<and> (if parseHM L (fst w) \<le> parseHM L (snd w)
            then parseHM L (fst w) \<le> m \<and> m < parseHM L (snd w)
            else parseHM L (fst w) \<le> m \<or> m < parseHM L (snd w)))"
proof (induction ws)
  case Nil
  show ?case by simp
next
  case (Cons w ws)
  obtain st en where w: "w = (st, en)" by (cases w)
  show ?case
    unfolding w using Cons.IH by (auto simp: Let_def)
qed

lemma inExcludeWindow_iff:
  assumes "r_ExcludeWindows r \<noteq> []" and "Unmarshal_windows L (r_ExcludeWindows r) = Some ws"
  shows "inExcludeWindow L m r \<longleftrightarrow> in_windows L m ws"
  using assms by (cases ws) (simp_all add: inExcludeWindow_def)

lemma processRule_excluded:
  assumes "a_Status alert = ''firing''" and "inExcludeWindow L (re_hm e) r"
  shows "processRule L T e r alert labels s = updateSuppressionWindow L (re_now_window e) r labels s"
  using assms by (simp add: processRule_def Let_def)

text \<open>
  C9. For a rule whose exclude windows decode to the list \<open>ws\<close>, and a local minute of the
  day \<open>m\<close>: the gate drops the send exactly when some window with two valid times
  contains \<open>m\<close>, where a window with \<open>start \<le> end\<close> contains the minutes
  \<open>start \<le> m < end\<close> (none when \<open>start = end\<close>) and a window with \<open>start > end\<close> the
  minutes \<open>m \<ge> start\<close> or \<open>m < end\<close>. A time is valid when it scans as \<open>h:m\<close> with
  \<open>0 \<le> h \<le> 23\<close> and \<open>0 \<le> m \<le> 59\<close>; a window with an invalid time is passed over.
  When the gate drops the send of a firing alert, the alerts table, the send records and
  the calls to the sender are as they were.
\<close>

theorem C9_exclude_window:
  assumes "r_ExcludeWindows r \<noteq> []" and "Unmarshal_windows L (r_ExcludeWindows r) = Some ws"
  shows
    "(inExcludeWindow L m r \<longleftrightarrow>
        (\<exists>w \<in> set ws. 0 \<le> parseHM L (fst w) \<and> 0 \<le> parseHM L (snd w)
           \<and> (if parseHM L (fst w) \<le> parseHM L (snd w)
               then parseHM L (fst w) \<le> m \<and> m < parseHM L (snd w)
               else parseHM L (fst w) \<le> m \<or> m < parseHM L (snd w))))
     \<and> (ws = [(st, en)] \<and> parseHM L st = parseHM L en \<longrightarrow> \<not> inExcludeWindow L m r)
     \<and> (Sscanf_HM L x = None \<longrightarrow> parseHM L x = - 1)
     \<and> (\<forall>h mi. Sscanf_HM L x = Some (h, mi) \<longrightarrow>
           parseHM L x = (if 0 \<le> h \<and> h \<le> 23 \<and> 0 \<le> mi \<and> mi \<le> 59 then h * 60 + mi else - 1))
     \<and> (a_Status alert = ''firing'' \<and> re_hm e = m \<and> inExcludeWindow L m r \<longrightarrow>
           es_alerts (processRule L T e r alert labels s) = es_alerts s
           \<and> es_records (processRule L T e r alert labels s) = es_records s
           \<and> es_sent (processRule L T e r alert labels s) = es_sent s)"
proof -
  have iff: "inExcludeWindow L m r \<longleftrightarrow>
        (\<exists>w \<in> set ws. 0 \<le> parseHM L (fst w) \<and> 0 \<le> parseHM L (snd w)
           \<and> (if parseHM L (fst w) \<le> parseHM L (snd w)
               then parseHM L (fst w) \<le> m \<and> m < parseHM L (snd w)
               else parseHM L (fst w) \<le> m \<or> m < parseHM L (snd w)))"
    using inExcludeWindow_iff [OF assms] in_windows_iff by simp
  have empty: "ws = [(st, en)] \<and> parseHM L st = parseHM L en \<longrightarrow> \<not> inExcludeWindow L m r"
    using iff by auto
  have frame: "a_Status alert = ''firing'' \<and> re_hm e = m \<and> inExcludeWindow L m r \<longrightarrow>
           es_alerts (processRule L T e r alert labels s) = es_alerts s
           \<and> es_records (processRule L T e r alert labels s) = es_records s
           \<and> es_sent (processRule L T e r alert labels s) = es_sent s"
    using processRule_excluded [of alert L e r T labels s]
    by (auto simp: updateSuppressionWindow_frame)
  show ?thesis
    using iff empty frame parseHM_cases [of L x] by blast
qed

text \<open>
  The window 22:00 to 08:00 wraps midnight: 23:00 is inside, noon is outside, and a firing
  alert processed at 23:00 leaves no send record and no call to the sender.
\<close>

theorem C9_exclude_window_witness:
  "r_ExcludeWindows ex_rule_night \<noteq> []
   \<and> Unmarshal_windows demo_lib (r_ExcludeWindows ex_rule_night) = Some [(''22:00'', ''08:00'')]
   \<and> inExcludeWindow demo_lib 1380 ex_rule_night
   \<and> \<not> inExcludeWindow demo_lib 720 ex_rule_night
   \<and> es_records (processRule demo_lib demo_texts (env_at 5000 1380) ex_rule_night ex_alert [] ex_state) = []
   \<and> es_sent (processRule demo_lib demo_texts (env_at 5000 1380) ex_rule_night ex_alert [] ex_state) = []"
proof -
  have h1: "r_ExcludeWindows ex_rule_night \<noteq> []"
    by (simp add: ex_rule_night_def)
  have h2: "Unmarshal_windows demo_lib (r_ExcludeWindows ex_rule_night) = Some [(''22:00'', ''08:00'')]"
    by (simp add: ex_rule_night_def demo_lib_def demo_Unmarshal_windows_def)
  have p: "parseHM demo_lib ''22:00'' = 1320" "parseHM demo_lib ''08:00'' = 480"
    by (simp_all add: parseHM_def demo_lib_def demo_Sscanf_HM_def)
  have a: "inExcludeWindow demo_lib 1380 ex_rule_night"
    using C9_exclude_window [OF h1 h2, of 1380] p by simp
  have b: "\<not> inExcludeWindow demo_lib 720 ex_rule_night"
    using C9_exclude_window [OF h1 h2, of 720] p by simp
  have st: "a_Status ex_alert = ''firing''" "re_hm (env_at 5000 1380) = 1380"
    by (simp_all add: ex_alert_def env_at_def)
  have c: "es_records (processRule demo_lib demo_texts (env_at 5000 1380) ex_rule_night ex_alert [] ex_state)
             = es_records ex_state
           \<and> es_sent (processRule demo_lib demo_texts (env_at 5000 1380) ex_rule_night ex_alert [] ex_state)
             = es_sent ex_state"
    using C9_exclude_window [OF h1 h2, of 1380 _ _ _ ex_alert "env_at 5000 1380" demo_texts "[]" ex_state]
      a st by blast
  have e: "es_records ex_state = []" "es_sent ex_state = []"
    by (simp_all add: ex_state_def)
  from h1 h2 a b c e show ?thesis by simp
qed

lemma dispatch_pass_not_limited:
  assumes "\<not> sendRateLimited L (ce_now_check e) r alertID chID s"
    and "es_channels s chID = Some ch" and "ch_Enabled ch"
  shows "es_sent (dispatch_pass L e r alertID title body chID s) =
           es_sent s @ [\<lparr>call_Type = ch_Type ch, call_Config = ch_Config ch, call_Title = title,
                         call_Body = body, call_IsRecovery = False\<rparr>]"
  using assms
  by (simp add: dispatch_pass_def create_record_def call_sender_def split: option.splits)

text \<open>
  C10. A rule whose duration string is non-empty, is not \<open>"0"\<close> and does not parse as a
  duration passes the duration gate whatever the clock and the alert's firing instant are.
  A rule whose send interval is non-empty, is not \<open>"0"\<close> and does not parse is never
  rate-limited, whatever send records exist; the dispatch to an enabled channel then calls
  the sender.
\<close>

theorem C10_malformed_durations_fail_open:
  "(r_Duration r \<noteq> [] \<and> r_Duration r \<noteq> ''0'' \<and> ParseDuration L (r_Duration r) = None \<longrightarrow>
      durationSatisfied L now r a)
   \<and> (r_SendInterval r \<noteq> [] \<and> r_SendInterval r \<noteq> ''0'' \<and> ParseDuration L (r_SendInterval r) = None \<longrightarrow>
        \<not> sendRateLimited L now r alertID chID s
        \<and> (ce_now_check e = now \<and> es_channels s chID = Some ch \<and> ch_Enabled ch \<longrightarrow>
             es_sent (dispatch_pass L e r alertID title body chID s) =
               es_sent s @ [\<lparr>call_Type = ch_Type ch, call_Config = ch_Config ch, call_Title = title,
                             call_Body = body, call_IsRecovery = False\<rparr>]))"
proof -
  have d: "r_Duration r \<noteq> [] \<and> r_Duration r \<noteq> ''0'' \<and> ParseDuration L (r_Duration r) = None \<longrightarrow>
      durationSatisfied L now r a"
    by (simp add: durationSatisfied_def)
  have i: "r_SendInterval r \<noteq> [] \<and> r_SendInterval r \<noteq> ''0'' \<and> ParseDuration L (r_SendInterval r) = None \<longrightarrow>
        \<not> sendRateLimited L now r alertID chID s"
    by (simp add: sendRateLimited_def)
  show ?thesis
    using d i dispatch_pass_not_limited [of L e r alertID chID s ch title body] by blast
qed

text \<open>
  The duration \<open>"5 minutes"\<close> and the send interval \<open>"five"\<close> do not parse: an alert that
  began firing at the very instant of the check passes the duration gate, and a dispatch
  right after a successful send is not throttled and reaches the sender.
\<close>

theorem C10_malformed_durations_fail_open_witness:
  "r_Duration ex_rule_malformed \<noteq> [] \<and> r_Duration ex_rule_malformed \<noteq> ''0''
   \<and> ParseDuration demo_lib (r_Duration ex_rule_malformed) = None
   \<and> durationSatisfied demo_lib 1000 ex_rule_malformed ex_alert
   \<and> r_SendInterval ex_rule_malformed \<noteq> [] \<and> r_SendInterval ex_rule_malformed \<noteq> ''0''
   \<and> ParseDuration demo_lib (r_SendInterval ex_rule_malformed) = None
   \<and> \<not> sendRateLimited demo_lib 1000 ex_rule_malformed ''a1'' 7
         (create_record 999 ''a1'' 7 True [] ex_state)
   \<and> length (es_sent (dispatch_pass demo_lib \<lparr>ce_now_check = 1000, ce_send = None, ce_now_create = 1001\<rparr>
         ex_rule_malformed ''a1'' ''t'' ''b'' 7 (create_record 999 ''a1'' 7 True [] ex_state))) = 1"
proof -
  have h: "r_Duration ex_rule_malformed \<noteq> []" "r_Duration ex_rule_malformed \<noteq> ''0''"
    "ParseDuration demo_lib (r_Duration ex_rule_malformed) = None"
    "r_SendInterval ex_rule_malformed \<noteq> []" "r_SendInterval ex_rule_malformed \<noteq> ''0''"
    "ParseDuration demo_lib (r_SendInterval ex_rule_malformed) = None"
    by (simp_all add: ex_rule_malformed_def demo_lib_def demo_ParseDuration_def)
  have c: "ce_now_check \<lparr>ce_now_check = 1000, ce_send = None, ce_now_create = 1001\<rparr> = 1000"
    "es_channels (create_record 999 ''a1'' 7 True [] ex_state) 7 = Some ex_channel"
    "ch_Enabled ex_channel"
    "es_sent (create_record 999 ''a1'' 7 True [] ex_state) = []"
    by (simp_all add: create_record_def ex_state_def ex_channel_def)
  note T = C10_malformed_durations_fail_open
    [of ex_rule_malformed demo_lib 1000 ex_alert "''a1''" 7
        "create_record 999 ''a1'' 7 True [] ex_state"
        "\<lparr>ce_now_check = 1000, ce_send = None, ce_now_create = 1001\<rparr>" ex_channel "''t''" "''b''"]
  have d: "durationSatisfied demo_lib 1000 ex_rule_malformed ex_alert"
    using T h by blast
  have l: "\<not> sendRateLimited demo_lib 1000 ex_rule_malformed ''a1'' 7
         (create_record 999 ''a1'' 7 True [] ex_state)"
    using T h by blast
  have s: "es_sent (dispatch_pass demo_lib \<lparr>ce_now_check = 1000, ce_send = None, ce_now_create = 1001\<rparr>
         ex_rule_malformed ''a1'' ''t'' ''b'' 7 (create_record 999 ''a1'' 7 True [] ex_state)) =
       es_sent (create_record 999 ''a1'' 7 True [] ex_state)
         @ [\<lparr>call_Type = ch_Type ex_channel, call_Config = ch_Config ex_channel, call_Title = ''t'',
              call_Body = ''b'', call_IsRecovery = False\<rparr>]"
    using T h c by blast
  from h d l s c(4) show ?thesis by simp
qed

section \<open>Properties of the fingerprint\<close>

lemma lookup_labelsSorted:
  "k \<in> fst ` set l \<Longrightarrow> lookup (labelsSorted l) k = lookup l k"
  by (simp add: lookup_def labelsSorted_def map_of_map_restrict restrict_map_def)

lemma keys_labelsSorted: "map fst (labelsSorted l) = sort (map fst l)"
  by (simp add: labelsSorted_def comp_def)

lemma marshal_labelsSorted:
  "json_Marshal_strmap L (labelsSorted l) =
     ''{'' @ strings_Join
        (map (\<lambda>k. Marshal_string L k @ '':'' @ Marshal_string L (lookup l k)) (sort (map fst l)))
        '','' @ ''}''"
proof -
  have "map (\<lambda>k. Marshal_string L k @ '':'' @ Marshal_string L (lookup (labelsSorted l) k))
          (sort (map fst l))
        = map (\<lambda>k. Marshal_string L k @ '':'' @ Marshal_string L (lookup l k)) (sort (map fst l))"
    by (rule map_cong) (auto simp: lookup_labelsSorted)
  moreover have "sort (map fst (labelsSorted l)) = sort (map fst l)"
    by (simp add: keys_labelsSorted sorted_sort_id)
  ultimately show ?thesis
    unfolding json_Marshal_strmap_def by (simp only:)
qed

lemma same_pairs_same_keys:
  assumes "distinct (map fst l1)" "distinct (map fst l2)" "set l1 = set l2"
  shows "sort (map fst l1) = sort (map fst l2)"
proof (rule sorted_distinct_set_unique)
  show "set (sort (map fst l1)) = set (sort (map fst l2))" using assms(3) by simp
qed (use assms in simp_all)

lemma same_pairs_same_lookup:
  assumes "distinct (map fst l1)" "distinct (map fst l2)" "set l1 = set l2"
  shows "lookup l1 = lookup l2"
  using map_of_inject_set [OF assms(1,2)] assms(3) by (auto simp: lookup_def fun_eq_iff)

lemma lookup_of_pair:
  "distinct (map fst l) \<Longrightarrow> (k, v) \<in> set l \<Longrightarrow> lookup l k = v"
  by (simp add: lookup_def)

lemma sorted_pairs:
  assumes "distinct (map fst l)"
  shows "map (\<lambda>k. (k, lookup l k)) (sort (map fst l)) = sort_key fst l"
proof -
  let ?ys = "sort_key fst l"
  have d: "distinct (map fst ?ys)"
    using assms by (simp add: distinct_map)
  have e: "sort (map fst l) = map fst ?ys"
    by (rule sorted_distinct_set_unique) (use d assms in simp_all)
  have "map (\<lambda>k. (k, lookup l k)) (sort (map fst l)) = map (\<lambda>p. (fst p, lookup l (fst p))) ?ys"
    unfolding e by (simp add: comp_def)
  also have "\<dots> = map (\<lambda>p. p) ?ys"
    by (rule map_cong) (auto simp: lookup_of_pair [OF assms])
  finally show ?thesis by simp
qed

lemma marshal_canonical:
  assumes "distinct (map fst l)"
  shows "json_Marshal_strmap L (labelsSorted l) = canonicalJSON L l"
proof -
  have "map (\<lambda>k. Marshal_string L k @ '':'' @ Marshal_string L (lookup l k)) (sort (map fst l))
      = map (\<lambda>(k, v). Marshal_string L k @ '':'' @ Marshal_string L v)
          (map (\<lambda>k. (k, lookup l k)) (sort (map fst l)))"
    by (simp add: comp_def)
  then show ?thesis
    by (simp add: marshal_labelsSorted canonicalJSON_def sorted_pairs [OF assms])
qed

lemma hexdigit_lower: "n < 16 \<Longrightarrow> hexdigit n \<in> set ''0123456789abcdef''"
  unfolding hexdigit_def by (rule nth_mem) simp

lemma of_char_less: "(of_char c :: nat) < 256"
  by (cases c) simp

lemma hexEncode_lower: "set (hexEncode bs) \<subseteq> set ''0123456789abcdef''"
proof -
  have "hexdigit (of_char c div 16) \<in> set ''0123456789abcdef''
      \<and> hexdigit (of_char c mod 16) \<in> set ''0123456789abcdef''" for c
    using of_char_less [of c] by (intro conjI hexdigit_lower) (simp_all add: less_mult_imp_div_less)
  then show ?thesis
    unfolding hexEncode_def by (induction bs) auto
qed

lemma hexEncode_length: "length (hexEncode bs) = 2 * length bs"
  unfolding hexEncode_def by (induction bs) auto

lemma KeyForSeriesWithRule_payload:
  assumes "distinct (map fst l)"
  shows "KeyForSeriesWithRule L sid rid title (Some l) idx =
     hexEncode (Sum256 L (showNat (unat sid) @ ''|'' @ showNat (unat rid) @ ''|'' @ title @ ''|''
       @ canonicalJSON L l
       @ (if 0 \<le> idx \<and> lookup l ''instance'' = [] \<and> lookup l ''job'' = []
          then ''|'' @ showNat (nat idx) else [])))"
  by (simp add: KeyForSeriesWithRule_def disambiguator_def marshal_canonical [OF assms])

lemma keyWithDisambiguator_payload:
  assumes "distinct (map fst l)"
  shows "keyWithDisambiguator L sid title (Some l) idx =
     hexEncode (Sum256 L (showNat (unat sid) @ ''|'' @ title @ ''|''
       @ canonicalJSON L l
       @ (if 0 \<le> idx \<and> lookup l ''instance'' = [] \<and> lookup l ''job'' = []
          then ''|'' @ showNat (nat idx) else [])))"
  by (simp add: keyWithDisambiguator_def disambiguator_def marshal_canonical [OF assms])

lemma same_pairs_same_marshal:
  assumes "distinct (map fst l1)" "distinct (map fst l2)" "set l1 = set l2"
  shows "json_Marshal_strmap L (labelsSorted l1) = json_Marshal_strmap L (labelsSorted l2)"
  unfolding marshal_labelsSorted same_pairs_same_keys [OF assms] same_pairs_same_lookup [OF assms]
  by (rule refl)

text \<open>
  C5. Two label maps with the same key-value pairs, however their entries are ordered,
  get the same fingerprint, with and without the rule id. The fingerprint is the
  lowercase hexadecimal encoding of the SHA-256 digest of
  \<open>sourceId | [ruleId |] title | canonicalJSON(labels)\<close>, where the canonical JSON lists the
  pairs in the lexicographic order of their keys, followed by \<open>| resultIndex\<close> exactly when
  \<open>resultIndex \<ge> 0\<close> and both \<open>labels["instance"]\<close> and \<open>labels["job"]\<close> are empty.
\<close>

theorem C5_fingerprint_canonical:
  assumes "distinct (map fst l1)" and "distinct (map fst l2)" and "set l1 = set l2"
  shows
    "KeyForSeriesWithRule L sid rid title (Some l1) idx
       = KeyForSeriesWithRule L sid rid title (Some l2) idx
     \<and> keyWithDisambiguator L sid title (Some l1) idx
       = keyWithDisambiguator L sid title (Some l2) idx
     \<and> KeyForSeriesWithRule L sid rid title (Some l1) idx =
         hexEncode (Sum256 L (showNat (unat sid) @ ''|'' @ showNat (unat rid) @ ''|'' @ title @ ''|''
           @ canonicalJSON L l1
           @ (if 0 \<le> idx \<and> lookup l1 ''instance'' = [] \<and> lookup l1 ''job'' = []
              then ''|'' @ showNat (nat idx) else [])))
     \<and> keyWithDisambiguator L sid title (Some l1) idx =
         hexEncode (Sum256 L (showNat (unat sid) @ ''|'' @ title @ ''|''
           @ canonicalJSON L l1
           @ (if 0 \<le> idx \<and> lookup l1 ''instance'' = [] \<and> lookup l1 ''job'' = []
              then ''|'' @ showNat (nat idx) else [])))
     \<and> set (KeyForSeriesWithRule L sid rid title (Some l1) idx) \<subseteq> set ''0123456789abcdef''
     \<and> set (keyWithDisambiguator L sid title (Some l1) idx) \<subseteq> set ''0123456789abcdef''"
proof -
  have l: "lookup l1 = lookup l2"
    by (rule same_pairs_same_lookup [OF assms])
  have a: "KeyForSeriesWithRule L sid rid title (Some l1) idx
       = KeyForSeriesWithRule L sid rid title (Some l2) idx"
    by (simp add: KeyForSeriesWithRule_def disambiguator_def l same_pairs_same_marshal [OF assms])
  have b: "keyWithDisambiguator L sid title (Some l1) idx
       = keyWithDisambiguator L sid title (Some l2) idx"
    by (simp add: keyWithDisambiguator_def disambiguator_def l same_pairs_same_marshal [OF assms])
  have c: "set (KeyForSeriesWithRule L sid rid title (Some l1) idx) \<subseteq> set ''0123456789abcdef''"
    unfolding KeyForSeriesWithRule_def Let_def by (rule hexEncode_lower)
  have d: "set (keyWithDisambiguator L sid title (Some l1) idx) \<subseteq> set ''0123456789abcdef''"
    unfolding keyWithDisambiguator_def Let_def by (rule hexEncode_lower)
  from a b c d KeyForSeriesWithRule_payload [OF assms(1)] keyWithDisambiguator_payload [OF assms(1)]
  show ?thesis by (intro conjI)
qed

text \<open>
  The labels \<open>job = api\<close>, \<open>severity = high\<close> in the two orders: one fingerprint.
\<close>

theorem C5_fingerprint_canonical_witness:
  "distinct (map fst [(''job'', ''api''), (''severity'', ''high'')])
   \<and> distinct (map fst [(''severity'', ''high''), (''job'', ''api'')])
   \<and> set [(''job'', ''api''), (''severity'', ''high'')] = set [(''severity'', ''high''), (''job'', ''api'')]
   \<and> KeyForSeriesWithRule demo_lib 1 2 ''cpu'' (Some [(''job'', ''api''), (''severity'', ''high'')]) 0
       = KeyForSeriesWithRule demo_lib 1 2 ''cpu'' (Some [(''severity'', ''high''), (''job'', ''api'')]) 0
   \<and> Key demo_lib 1 ''cpu'' (Some [(''job'', ''api''), (''severity'', ''high'')])
       = Key demo_lib 1 ''cpu'' (Some [(''severity'', ''high''), (''job'', ''api'')])"
proof -
  have h1: "distinct (map fst [(''job'', ''api''), (''severity'', ''high'')])" by simp
  have h2: "distinct (map fst [(''severity'', ''high''), (''job'', ''api'')])" by simp
  have h3: "set [(''job'', ''api''), (''severity'', ''high'')] = set [(''severity'', ''high''), (''job'', ''api'')]"
    by auto
  from C5_fingerprint_canonical [OF h1 h2 h3, of demo_lib 1 2 "''cpu''" 0]
  have a: "KeyForSeriesWithRule demo_lib 1 2 ''cpu'' (Some [(''job'', ''api''), (''severity'', ''high'')]) 0
       = KeyForSeriesWithRule demo_lib 1 2 ''cpu'' (Some [(''severity'', ''high''), (''job'', ''api'')]) 0"
    by (rule conjunct1)
  from C5_fingerprint_canonical [OF h1 h2 h3, of demo_lib 1 2 "''cpu''" "- 1"]
  have b: "Key demo_lib 1 ''cpu'' (Some [(''job'', ''api''), (''severity'', ''high'')])
       = Key demo_lib 1 ''cpu'' (Some [(''severity'', ''high''), (''job'', ''api'')])"
    unfolding Key_def by (elim conjE)
  from h1 h2 h3 a b show ?thesis by (intro conjI)
qed

section \<open>Properties of the rate limiter\<close>

lemma refill_tokens:
  "rl_tokens (refill L rl now) =
     (if f_gt (Float64_add_mul L (rl_tokens rl) (Duration_Seconds L (time_Sub now (rl_lastTime rl)))
                 (rl_rate rl)) (rl_burst rl)
      then rl_burst rl
      else Float64_add_mul L (rl_tokens rl) (Duration_Seconds L (time_Sub now (rl_lastTime rl)))
             (rl_rate rl))"
  by (simp add: refill_def Let_def)

lemma refill_other:
  "rl_lastTime (refill L rl now) = now" "rl_rate (refill L rl now) = rl_rate rl"
  "rl_burst (refill L rl now) = rl_burst rl"
  by (simp_all add: refill_def Let_def)

lemma f_gt_irrefl: "\<not> f_gt x x"
  by (cases x) (simp_all add: f_gt_def)

lemma refill_capped: "\<not> f_gt (rl_tokens (refill L rl now)) (rl_burst rl)"
  by (simp add: refill_tokens f_gt_irrefl)

lemma limiter_at_fields:
  "rl_tokens (limiter_at t l) = t" "rl_lastTime (limiter_at t l) = l"
  "rl_rate (limiter_at t l) = FNum 5" "rl_burst (limiter_at t l) = FNum 3"
  by (simp_all add: limiter_at_def larkLimiter_def)

lemma acquire_exhausted:
  assumes "f_lt (rl_tokens (refill L rl now)) (FNum 1)"
  shows "snd (acquire L rl now) =
           Some (Duration_of_float64 L
                   (Float64_mul L
                      (Float64_quo L (Float64_sub L (FNum 1) (rl_tokens (refill L rl now))) (rl_rate rl))
                      (FNum 1000000000)))"
    and "rl_tokens (fst (acquire L rl now)) = Float64_sub L (FNum 0) (FNum 1)"
  using assms by (simp_all add: acquire_def Let_def refill_other second_def)

lemma acquire_available:
  assumes "\<not> f_lt (rl_tokens (refill L rl now)) (FNum 1)"
  shows "snd (acquire L rl now) = None"
    and "rl_tokens (fst (acquire L rl now)) = Float64_sub L (rl_tokens (refill L rl now)) (FNum 1)"
  using assms by (simp_all add: acquire_def Let_def)

lemma acquire_other:
  "rl_lastTime (fst (acquire L rl now)) = now" "rl_rate (fst (acquire L rl now)) = rl_rate rl"
  "rl_burst (fst (acquire L rl now)) = rl_burst rl"
  by (simp_all add: acquire_def Let_def refill_other split: if_splits)

text \<open>
  C8 as the specification states it fails: the token count after an acquire that took the
  exhausted branch is not 0. The limiter holds 0 tokens and no time has passed: the
  caller sleeps 0.2 s and the count ends at -1.
\<close>

theorem C8_exhausted_tokens_counterexample:
  "f_lt (rl_tokens (refill demo_lib (limiter_at (FNum 0) 100) 100)) (FNum 1)
   \<and> snd (acquire demo_lib (limiter_at (FNum 0) 100) 100) = Some 200000000
   \<and> rl_tokens (fst (acquire demo_lib (limiter_at (FNum 0) 100) 100)) = FNum (- 1)
   \<and> rl_tokens (fst (acquire demo_lib (limiter_at (FNum 0) 100) 100)) \<noteq> FNum 0"
  by (simp add: acquire_def refill_def limiter_at_def larkLimiter_def time_Sub_def
      truncate_toward_zero_def second_def Let_def f_gt_def demo_lib_def demo_Float64_mul_def
      demo_Float64_quo_def demo_Float64_sub_def demo_Float64_add_mul_def demo_Duration_Seconds_def)

text \<open>
  C8, amended. The limiter of the package has rate 5, burst 3 and starts with 3 tokens.
  From any token count \<open>t\<close> and any instant \<open>l\<close> of the last call, \<open>acquire\<close> first refills:
  the tokens become \<open>t + elapsed * rate\<close> as the machine computes it, where \<open>elapsed\<close> is the
  time since \<open>l\<close> in seconds, and are capped at \<open>burst\<close>, so the refilled count is never
  above 3. If the refilled count is below 1, the caller sleeps for
  \<open>(1 - tokens) / rate\<close> seconds (as the machine computes it, the fraction of a nanosecond
  discarded), the count is set to 0 and then, like in the other branch, decremented: it
  ends at \<open>0 - 1\<close>, which is -1 in every arithmetic that computes this difference exactly,
  as IEEE 754 arithmetic does. Otherwise nobody sleeps and the count ends at the refilled
  count minus one, as the machine computes it. The last instant becomes \<open>now\<close>; rate and
  burst stay.
\<close>

theorem C8_acquire:
  assumes "Float64_sub L (FNum 0) (FNum 1) = FNum (- 1)"
  shows "rl_rate larkLimiter = FNum 5 \<and> rl_burst larkLimiter = FNum 3
   \<and> rl_tokens larkLimiter = FNum 3
   \<and> rl_tokens (refill L (limiter_at t l) now) =
       (if f_gt (Float64_add_mul L t (Duration_Seconds L (time_Sub now l)) (FNum 5)) (FNum 3)
        then FNum 3
        else Float64_add_mul L t (Duration_Seconds L (time_Sub now l)) (FNum 5))
   \<and> \<not> f_gt (rl_tokens (refill L (limiter_at t l) now)) (FNum 3)
   \<and> (f_lt (rl_tokens (refill L (limiter_at t l) now)) (FNum 1) \<longrightarrow>
        snd (acquire L (limiter_at t l) now) =
          Some (Duration_of_float64 L
                  (Float64_mul L
                     (Float64_quo L
                        (Float64_sub L (FNum 1) (rl_tokens (refill L (limiter_at t l) now)))
                        (FNum 5))
                     (FNum 1000000000)))
        \<and> rl_tokens (fst (acquire L (limiter_at t l) now)) = FNum (- 1))
   \<and> (\<not> f_lt (rl_tokens (refill L (limiter_at t l) now)) (FNum 1) \<longrightarrow>
        snd (acquire L (limiter_at t l) now) = None
        \<and> rl_tokens (fst (acquire L (limiter_at t l) now)) =
            Float64_sub L (rl_tokens (refill L (limiter_at t l) now)) (FNum 1))
   \<and> rl_lastTime (fst (acquire L (limiter_at t l) now)) = now
   \<and> rl_rate (fst (acquire L (limiter_at t l) now)) = FNum 5
   \<and> rl_burst (fst (acquire L (limiter_at t l) now)) = FNum 3"
proof -
  have d: "rl_rate larkLimiter = FNum 5 \<and> rl_burst larkLimiter = FNum 3
      \<and> rl_tokens larkLimiter = FNum 3"
    by (simp add: larkLimiter_def)
  have r: "rl_tokens (refill L (limiter_at t l) now) =
       (if f_gt (Float64_add_mul L t (Duration_Seconds L (time_Sub now l)) (FNum 5)) (FNum 3)
        then FNum 3
        else Float64_add_mul L t (Duration_Seconds L (time_Sub now l)) (FNum 5))"
    by (simp add: refill_tokens limiter_at_fields)
  have c: "\<not> f_gt (rl_tokens (refill L (limiter_at t l) now)) (FNum 3)"
    using refill_capped [of L "limiter_at t l" now] by (simp add: limiter_at_fields)
  have a: "f_lt (rl_tokens (refill L (limiter_at t l) now)) (FNum 1) \<longrightarrow>
        snd (acquire L (limiter_at t l) now) =
          Some (Duration_of_float64 L
                  (Float64_mul L
                     (Float64_quo L
                        (Float64_sub L (FNum 1) (rl_tokens (refill L (limiter_at t l) now)))
                        (FNum 5))
                     (FNum 1000000000)))
        \<and> rl_tokens (fst (acquire L (limiter_at t l) now)) = FNum (- 1)"
    using acquire_exhausted [of L "limiter_at t l" now] assms by (simp add: limiter_at_fields)
  have b: "\<not> f_lt (rl_tokens (refill L (limiter_at t l) now)) (FNum 1) \<longrightarrow>
        snd (acquire L (limiter_at t l) now) = None
        \<and> rl_tokens (fst (acquire L (limiter_at t l) now)) =
            Float64_sub L (rl_tokens (refill L (limiter_at t l) now)) (FNum 1)"
    using acquire_available [of L "limiter_at t l" now] by simp
  have o: "rl_lastTime (fst (acquire L (limiter_at t l) now)) = now"
    "rl_rate (fst (acquire L (limiter_at t l) now)) = FNum 5"
    "rl_burst (fst (acquire L (limiter_at t l) now)) = FNum 3"
    by (simp_all add: acquire_other limiter_at_fields)
  from d r c a b o show ?thesis by blast
qed

text \<open>
  The limiter of the package one second after the zero time: the bucket is full, nobody
  sleeps and 2 tokens are left. A limiter that holds half a token: the caller sleeps
  0.1 s and the count ends at -1.
\<close>

theorem C8_acquire_witness:
  "Float64_sub demo_lib (FNum 0) (FNum 1) = FNum (- 1)
   \<and> \<not> f_lt (rl_tokens (refill demo_lib (limiter_at (FNum 3) 0) 1000000000)) (FNum 1)
   \<and> snd (acquire demo_lib (limiter_at (FNum 3) 0) 1000000000) = None
   \<and> rl_tokens (fst (acquire demo_lib (limiter_at (FNum 3) 0) 1000000000)) = FNum 2
   \<and> f_lt (rl_tokens (refill demo_lib (limiter_at (FNum (1 / 2)) 7) 7)) (FNum 1)
   \<and> snd (acquire demo_lib (limiter_at (FNum (1 / 2)) 7) 7) = Some 100000000
   \<and> rl_tokens (fst (acquire demo_lib (limiter_at (FNum (1 / 2)) 7) 7)) = FNum (- 1)"
proof -
  have s: "Float64_sub demo_lib (FNum 0) (FNum 1) = FNum (- 1)"
    by (simp add: demo_lib_def demo_Float64_sub_def)
  have r1: "rl_tokens (refill demo_lib (limiter_at (FNum 3) 0) 1000000000) = FNum 3"
    by (simp add: refill_tokens limiter_at_fields time_Sub_def f_gt_def demo_lib_def
        demo_Float64_add_mul_def demo_Duration_Seconds_def)
  have r2: "rl_tokens (refill demo_lib (limiter_at (FNum (1 / 2)) 7) 7) = FNum (1 / 2)"
    by (simp add: refill_tokens limiter_at_fields time_Sub_def f_gt_def demo_lib_def
        demo_Float64_add_mul_def demo_Duration_Seconds_def)
  have n: "\<not> f_lt (rl_tokens (refill demo_lib (limiter_at (FNum 3) 0) 1000000000)) (FNum 1)"
    unfolding r1 by simp
  have e: "f_lt (rl_tokens (refill demo_lib (limiter_at (FNum (1 / 2)) 7) 7)) (FNum 1)"
    unfolding r2 by simp
  have a0: "snd (acquire demo_lib (limiter_at (FNum 3) 0) 1000000000) = None
      \<and> rl_tokens (fst (acquire demo_lib (limiter_at (FNum 3) 0) 1000000000)) =
          Float64_sub demo_lib (rl_tokens (refill demo_lib (limiter_at (FNum 3) 0) 1000000000)) (FNum 1)"
    using C8_acquire [OF s, of "FNum 3" 0 1000000000] n by blast
  have a: "snd (acquire demo_lib (limiter_at (FNum 3) 0) 1000000000) = None
      \<and> rl_tokens (fst (acquire demo_lib (limiter_at (FNum 3) 0) 1000000000)) = FNum 2"
    using a0 unfolding r1 by (simp add: demo_lib_def demo_Float64_sub_def)
  have b0: "snd (acquire demo_lib (limiter_at (FNum (1 / 2)) 7) 7) =
        Some (Duration_of_float64 demo_lib
                (Float64_mul demo_lib
                   (Float64_quo demo_lib
                      (Float64_sub demo_lib (FNum 1)
                         (rl_tokens (refill demo_lib (limiter_at (FNum (1 / 2)) 7) 7)))
                      (FNum 5))
                   (FNum 1000000000)))
      \<and> rl_tokens (fst (acquire demo_lib (limiter_at (FNum (1 / 2)) 7) 7)) = FNum (- 1)"
    using C8_acquire [OF s, of "FNum (1 / 2)" 7 7] e by blast
  have b: "snd (acquire demo_lib (limiter_at (FNum (1 / 2)) 7) 7) = Some 100000000
      \<and> rl_tokens (fst (acquire demo_lib (limiter_at (FNum (1 / 2)) 7) 7)) = FNum (- 1)"
    using b0 unfolding r2
    by (simp add: truncate_toward_zero_def demo_lib_def demo_Float64_sub_def demo_Float64_quo_def
        demo_Float64_mul_def)
  from s n e a b show ?thesis by blast
qed

section \<open>Properties of the dispatch and recovery loops\<close>

lemma success_since_pos:
  "success_since recs a c since > 0 \<longleftrightarrow>
     (\<exists>x \<in> set recs. success_for a c x \<and> since < sr_CreatedAt x)"
  by (auto simp: success_since_def success_for_def filter_empty_conv)

lemma sendRateLimited_iff:
  assumes "r_SendInterval r \<noteq> []" "r_SendInterval r \<noteq> ''0''"
    and "ParseDuration L (r_SendInterval r) = Some d"
  shows "sendRateLimited L now r a c s \<longleftrightarrow>
     (\<exists>x \<in> set (es_records s). success_for a c x \<and> now - d < sr_CreatedAt x)"
  using assms by (simp add: sendRateLimited_def success_since_pos)

lemma dispatch_pass_limited:
  "sendRateLimited L (ce_now_check e) r a c s \<Longrightarrow> dispatch_pass L e r a title body c s = s"
  by (simp add: dispatch_pass_def)

lemma dispatch_pass_records:
  "es_records (dispatch_pass L e r a title body c s) = es_records s
   \<or> (\<not> sendRateLimited L (ce_now_check e) r a c s
       \<and> (\<exists>ok err. es_records (dispatch_pass L e r a title body c s) =
            es_records s @ [\<lparr>sr_AlertID = a, sr_ChannelID = c, sr_Success = ok, sr_Error = err,
                              sr_CreatedAt = ce_now_create e\<rparr>]))"
  by (auto simp: dispatch_pass_def create_record_def call_sender_def split: option.splits)

lemma spaced_snoc:
  "spaced d a c (recs @ [y]) \<longleftrightarrow>
     spaced d a c recs
     \<and> (success_for a c y \<longrightarrow>
          (\<forall>x \<in> set recs. success_for a c x \<longrightarrow> sr_CreatedAt x + d \<le> sr_CreatedAt y))"
proof
  assume sp: "spaced d a c (recs @ [y])"
  have "spaced d a c recs"
    unfolding spaced_def
  proof (intro allI impI)
    fix j i assume "j < length recs" "i < j"
      "success_for a c (recs ! i) \<and> success_for a c (recs ! j)"
    with sp [unfolded spaced_def, rule_format, of j i]
    show "sr_CreatedAt (recs ! i) + d \<le> sr_CreatedAt (recs ! j)"
      by (simp add: nth_append)
  qed
  moreover have "success_for a c y \<longrightarrow>
          (\<forall>x \<in> set recs. success_for a c x \<longrightarrow> sr_CreatedAt x + d \<le> sr_CreatedAt y)"
  proof (intro impI ballI)
    fix x assume y: "success_for a c y" and "x \<in> set recs" and x: "success_for a c x"
    then obtain i where i: "i < length recs" "recs ! i = x" by (auto simp: in_set_conv_nth)
    with sp [unfolded spaced_def, rule_format, of "length recs" i] x y
    show "sr_CreatedAt x + d \<le> sr_CreatedAt y"
      by (simp add: nth_append)
  qed
  ultimately show "spaced d a c recs
     \<and> (success_for a c y \<longrightarrow>
          (\<forall>x \<in> set recs. success_for a c x \<longrightarrow> sr_CreatedAt x + d \<le> sr_CreatedAt y))" ..
next
  assume r: "spaced d a c recs
     \<and> (success_for a c y \<longrightarrow>
          (\<forall>x \<in> set recs. success_for a c x \<longrightarrow> sr_CreatedAt x + d \<le> sr_CreatedAt y))"
  show "spaced d a c (recs @ [y])"
    unfolding spaced_def
  proof (intro allI impI)
    fix j i assume j: "j < length (recs @ [y])" and ij: "i < j"
      and s: "success_for a c ((recs @ [y]) ! i) \<and> success_for a c ((recs @ [y]) ! j)"
    show "sr_CreatedAt ((recs @ [y]) ! i) + d \<le> sr_CreatedAt ((recs @ [y]) ! j)"
    proof (cases "j < length recs")
      case True
      with r [THEN conjunct1, unfolded spaced_def, rule_format, of j i] ij s
      show ?thesis by (simp add: nth_append)
    next
      case False
      with j have jl: "j = length recs" by simp
      with ij have "recs ! i \<in> set recs" by simp
      with r [THEN conjunct2] s jl ij show ?thesis by (simp add: nth_append)
    qed
  qed
qed

lemma dispatch_pass_spaced:
  assumes "r_SendInterval r \<noteq> []" "r_SendInterval r \<noteq> ''0''"
    and "ParseDuration L (r_SendInterval r) = Some d"
    and "ce_now_check e \<le> ce_now_create e"
    and "spaced d a c (es_records s)"
  shows "spaced d a c (es_records (dispatch_pass L e r a' title body c' s))"
proof -
  from dispatch_pass_records [of L e r a' title body c' s]
  consider "es_records (dispatch_pass L e r a' title body c' s) = es_records s"
    | ok err where "\<not> sendRateLimited L (ce_now_check e) r a' c' s"
      "es_records (dispatch_pass L e r a' title body c' s) =
            es_records s @ [\<lparr>sr_AlertID = a', sr_ChannelID = c', sr_Success = ok, sr_Error = err,
                              sr_CreatedAt = ce_now_create e\<rparr>]"
    by blast
  then show ?thesis
  proof cases
    case 1
    with assms(5) show ?thesis by simp
  next
    case 2
    let ?y = "\<lparr>sr_AlertID = a', sr_ChannelID = c', sr_Success = ok, sr_Error = err,
                sr_CreatedAt = ce_now_create e\<rparr>"
    have "\<forall>x \<in> set (es_records s). success_for a c x \<longrightarrow> sr_CreatedAt x + d \<le> sr_CreatedAt ?y"
      if y: "success_for a c ?y"
    proof (intro ballI impI)
      fix x assume x: "x \<in> set (es_records s)" "success_for a c x"
      from y have "a' = a" "c' = c" by (simp_all add: success_for_def)
      with 2(1) sendRateLimited_iff [OF assms(1-3), of "ce_now_check e" a c s] x
      have "\<not> ce_now_check e - d < sr_CreatedAt x" by blast
      with assms(4) show "sr_CreatedAt x + d \<le> sr_CreatedAt ?y" by simp
    qed
    with assms(5) 2(2) show ?thesis by (simp add: spaced_snoc)
  qed
qed

lemma dispatch_loop_spaced:
  assumes "r_SendInterval r \<noteq> []" "r_SendInterval r \<noteq> ''0''"
    and "ParseDuration L (r_SendInterval r) = Some d"
    and "\<forall>i. ce_now_check (E i) \<le> ce_now_create (E i)"
  shows "spaced d a c (es_records s) \<Longrightarrow>
     spaced d a c (es_records (dispatch_loop L E r a' title body i chs s))"
proof (induction chs arbitrary: i s)
  case Nil
  then show ?case by simp
next
  case (Cons ch chs)
  have "spaced d a c (es_records (dispatch_pass L (E i) r a' title body ch s))"
    using assms(4) Cons.prems by (intro dispatch_pass_spaced [OF assms(1-3)]) simp_all
  then show ?case by (simp add: Cons.IH)
qed

lemma sendRateLimited_own_records:
  "sendRateLimited L now r a c s =
     sendRateLimited L now r a c (s\<lparr>es_records := filter (\<lambda>x. sr_AlertID x = a) (es_records s)\<rparr>)"
proof -
  have "success_since (filter (\<lambda>x. sr_AlertID x = a) recs) a c t = success_since recs a c t"
    for recs t
    unfolding success_since_def filter_filter by (rule arg_cong [of _ _ length], rule filter_cong) auto
  then show ?thesis by (simp add: sendRateLimited_def split: option.splits)
qed

lemma recovery_pass_cases:
  "(recoveryAlreadySent (ce_now_check e) a c s \<longrightarrow> recovery_pass e a body c s = s)
   \<and> (\<not> recoveryAlreadySent (ce_now_check e) a c s \<and> es_channels s c = None \<longrightarrow>
        recovery_pass e a body c s = s)
   \<and> (\<forall>ch. \<not> recoveryAlreadySent (ce_now_check e) a c s \<and> es_channels s c = Some ch
          \<and> \<not> ch_Enabled ch \<longrightarrow> recovery_pass e a body c s = s)
   \<and> (\<forall>ch. \<not> recoveryAlreadySent (ce_now_check e) a c s \<and> es_channels s c = Some ch
          \<and> ch_Enabled ch \<longrightarrow>
        es_sent (recovery_pass e a body c s) =
          es_sent s @ [\<lparr>call_Type = ch_Type ch, call_Config = ch_Config ch, call_Title = [],
                        call_Body = body, call_IsRecovery = True\<rparr>]
        \<and> es_records (recovery_pass e a body c s) =
          es_records s @ [\<lparr>sr_AlertID = a, sr_ChannelID = c, sr_Success = (ce_send e = None),
                           sr_Error = (case ce_send e of None \<Rightarrow> [] | Some err \<Rightarrow> err),
                           sr_CreatedAt = ce_now_create e\<rparr>])"
  by (auto simp: recovery_pass_def create_record_def call_sender_def split: option.splits)

lemma dispatch_loop_frame:
  "es_alerts (dispatch_loop L E r a title body i chs s) = es_alerts s
   \<and> es_channels (dispatch_loop L E r a title body i chs s) = es_channels s
   \<and> es_aggLastSent (dispatch_loop L E r a title body i chs s) = es_aggLastSent s
   \<and> es_suppression (dispatch_loop L E r a title body i chs s) = es_suppression s"
proof (induction chs arbitrary: i s)
  case Nil
  show ?case by simp
next
  case (Cons ch chs)
  have "es_alerts (dispatch_pass L (E i) r a title body ch s) = es_alerts s
     \<and> es_channels (dispatch_pass L (E i) r a title body ch s) = es_channels s
     \<and> es_aggLastSent (dispatch_pass L (E i) r a title body ch s) = es_aggLastSent s
     \<and> es_suppression (dispatch_pass L (E i) r a title body ch s) = es_suppression s"
    by (simp add: dispatch_pass_def create_record_def call_sender_def split: option.splits)
  with Cons.IH [of "Suc i" "dispatch_pass L (E i) r a title body ch s"] show ?case by simp
qed

lemma sendAggregated_records:
  "es_records (sendAggregated L e r alert labels title body chs s) = es_records s
   \<or> (\<exists>t b. es_records (sendAggregated L e r alert labels title body chs s) =
         es_records (dispatch_loop L (re_chan e) r (a_ID alert) t b 0 chs s))"
  by (auto simp: sendAggregated_def Let_def)

lemma processRule_firing_spaced:
  assumes "r_SendInterval r \<noteq> []" "r_SendInterval r \<noteq> ''0''"
    and "ParseDuration L (r_SendInterval r) = Some d"
    and "\<forall>i. ce_now_check (re_chan e i) \<le> ce_now_create (re_chan e i)"
    and "a_Status alert = ''firing''"
    and "spaced d a c (es_records s)"
  shows "spaced d a c (es_records (processRule L T e r alert labels s))"
proof -
  let ?s = "updateSuppressionWindow L (re_now_window e) r labels s"
  have s: "spaced d a c (es_records ?s)"
    using assms(6) by (simp add: updateSuppressionWindow_frame)
  have loop: "spaced d a c (es_records (dispatch_loop L (re_chan e) r (a_ID alert) t b 0 chs ?s))"
    for t b chs
    by (rule dispatch_loop_spaced [OF assms(1-4) s])
  have agg: "spaced d a c (es_records (sendAggregated L e r alert labels t b chs ?s))" for t b chs
    using sendAggregated_records [of L e r alert labels t b chs ?s] s loop by auto
  show ?thesis
    using assms(5) s loop agg by (simp add: processRule_def Let_def)
qed

lemma ProcessAlert_single:
  "\<not> IsSilenced now (a_ID alert) s \<Longrightarrow>
     ProcessAlert L T now E [r] alert s = processRule L T (E 0) r alert (alert_labels L alert) s"
  by (simp add: ProcessAlert_def)

lemma ex_labels: "alert_labels demo_lib ex_alert = []" "alert_labels demo_lib ex_alert_resolved = []"
  by (simp_all add: alert_labels_def ex_alert_resolved_def ex_alert_def demo_lib_def
      demo_Unmarshal_strmap_def)

lemma ex_not_silenced:
  "es_silences s = [] \<Longrightarrow> \<not> IsSilenced now alertID s"
  by (simp add: IsSilenced_def)

lemma dispatch_pass_success_gap:
  assumes "r_SendInterval r \<noteq> []" "r_SendInterval r \<noteq> ''0''"
    and "ParseDuration L (r_SendInterval r) = Some d"
    and "ce_now_check e \<le> ce_now_create e"
    and "es_records (dispatch_pass L e r a title body c s) = es_records s @ [y]"
    and "x \<in> set (es_records s)" and "success_for a c x"
  shows "sr_CreatedAt x + d \<le> sr_CreatedAt y"
proof -
  from dispatch_pass_records [of L e r a title body c s] assms(5)
  obtain ok err where n: "\<not> sendRateLimited L (ce_now_check e) r a c s"
    and y: "y = \<lparr>sr_AlertID = a, sr_ChannelID = c, sr_Success = ok, sr_Error = err,
                 sr_CreatedAt = ce_now_create e\<rparr>"
    by auto
  from n sendRateLimited_iff [OF assms(1-3), of "ce_now_check e" a c s] assms(6,7)
  have "\<not> ce_now_check e - d < sr_CreatedAt x" by blast
  with assms(4) y show ?thesis by simp
qed

text \<open>
  C4 as the specification states it fails. The rule sends at most every five minutes and
  notifies recoveries. The alert fires and \<open>ProcessAlert\<close> sends it to channel 7; three
  minutes later it is resolved, and \<open>ProcessAlert\<close> sends the recovery to channel 7 as
  well: two successful send records of the same alert and channel, under the same rule,
  three minutes apart.
\<close>

theorem C4_recovery_within_interval_counterexample:
  "ParseDuration demo_lib (r_SendInterval ex_rule) = Some (5 * minute)
   \<and> r_RecoveryNotify ex_rule
   \<and> es_records
         (ProcessAlert demo_lib demo_texts (1000 + 3 * minute) (always (env_at (1000 + 3 * minute) 0))
            [ex_rule] ex_alert_resolved
            (ProcessAlert demo_lib demo_texts 1000 (always (env_at 1000 0)) [ex_rule] ex_alert ex_state))
     = [\<lparr>sr_AlertID = ''a1'', sr_ChannelID = 7, sr_Success = True, sr_Error = [],
         sr_CreatedAt = 1000\<rparr>,
        \<lparr>sr_AlertID = ''a1'', sr_ChannelID = 7, sr_Success = True, sr_Error = [],
         sr_CreatedAt = 1000 + 3 * minute\<rparr>]
   \<and> \<not> spaced (5 * minute) ''a1'' 7
       (es_records
         (ProcessAlert demo_lib demo_texts (1000 + 3 * minute) (always (env_at (1000 + 3 * minute) 0))
            [ex_rule] ex_alert_resolved
            (ProcessAlert demo_lib demo_texts 1000 (always (env_at 1000 0)) [ex_rule] ex_alert ex_state)))"
proof -
  let ?r1 = "\<lparr>sr_AlertID = ''a1'', sr_ChannelID = 7, sr_Success = True, sr_Error = [],
              sr_CreatedAt = 1000\<rparr>"
  let ?r2 = "\<lparr>sr_AlertID = ''a1'', sr_ChannelID = 7, sr_Success = True, sr_Error = [],
              sr_CreatedAt = 1000 + 3 * minute\<rparr>"
  let ?c1 = "\<lparr>call_Type = ''lark'', call_Config = ''{}'', call_Title = ''disk full'',
              call_Body = ''disk full'', call_IsRecovery = False\<rparr>"
  let ?s1 = "ex_state\<lparr>es_records := [?r1], es_sent := [?c1]\<rparr>"
  have p: "ParseDuration demo_lib (r_SendInterval ex_rule) = Some (5 * minute)" "r_RecoveryNotify ex_rule"
    by (simp_all add: ex_rule_def demo_lib_def demo_ParseDuration_def)
  have "processRule demo_lib demo_texts (env_at 1000 0) ex_rule ex_alert [] ex_state = ?s1"
    by (simp add: processRule_def updateSuppressionWindow_def ex_rule_def matchRule_def
        ex_alert_def channelIDs_of_def annotationValue_def demo_lib_def demo_Unmarshal_uints_def
        dispatch_pass_def sendRateLimited_def success_since_def ex_state_def env_at_def Let_def
        durationSatisfied_def inExcludeWindow_def suppressed_def demo_texts_def
        demo_ParseDuration_def create_record_def call_sender_def ex_channel_def)
  then have s1: "ProcessAlert demo_lib demo_texts 1000 (always (env_at 1000 0)) [ex_rule] ex_alert ex_state = ?s1"
    by (simp add: ProcessAlert_single ex_not_silenced ex_labels ex_state_def)
  have "es_records (processRule demo_lib demo_texts (env_at (1000 + 3 * minute) 0) ex_rule
        ex_alert_resolved [] ?s1) = [?r1, ?r2]"
    by (simp add: processRule_def updateSuppressionWindow_def ex_rule_def matchRule_def
        ex_alert_resolved_def ex_alert_def channelIDs_of_def annotationValue_def demo_lib_def
        demo_Unmarshal_uints_def recovery_pass_def recoveryAlreadySent_def success_since_def
        ex_state_def env_at_def Let_def demo_texts_def create_record_def call_sender_def
        ex_channel_def minute_def second_def)
  then have s2: "es_records (ProcessAlert demo_lib demo_texts (1000 + 3 * minute)
        (always (env_at (1000 + 3 * minute) 0)) [ex_rule] ex_alert_resolved ?s1) = [?r1, ?r2]"
    by (simp add: ProcessAlert_single ex_not_silenced ex_labels ex_state_def)
  have n: "\<not> spaced (5 * minute) ''a1'' 7 ([?r1] @ [?r2])"
    unfolding spaced_snoc by (simp add: success_for_def minute_def second_def)
  from p s2 n show ?thesis unfolding s1 by simp
qed

text \<open>
  C4, amended. For a rule whose send interval parses to \<open>d\<close>: a firing dispatch to a
  channel is throttled exactly when a successful send record of the alert and the channel
  was created less than \<open>d\<close> before the check; a throttled dispatch calls no sender and
  writes no record. Hence, with a clock that does not run backwards between the check and
  the creation of the record, every record a firing dispatch appends lies at least \<open>d\<close>
  after every earlier successful record of the same alert and channel, and the firing
  dispatches of the rule (the channel loop, and the processing of a firing alert as a
  whole) keep the send records spaced. Recovery notifications are exempt from the send
  interval (they have the two-minute check of their own). The throttle of an alert looks
  at the send records of that alert only.
\<close>

theorem C4_send_interval:
  assumes "r_SendInterval r \<noteq> []" and "r_SendInterval r \<noteq> ''0''"
    and "ParseDuration L (r_SendInterval r) = Some d"
    and "\<forall>i. ce_now_check (re_chan e i) \<le> ce_now_create (re_chan e i)"
  shows
    "(sendRateLimited L now r a c s \<longleftrightarrow>
        (\<exists>x \<in> set (es_records s). success_for a c x \<and> now - d < sr_CreatedAt x))
     \<and> (sendRateLimited L (ce_now_check (re_chan e i)) r a c s \<longrightarrow>
          dispatch_pass L (re_chan e i) r a title body c s = s)
     \<and> (\<forall>y. es_records (dispatch_pass L (re_chan e i) r a title body c s) = es_records s @ [y] \<longrightarrow>
          (\<forall>x \<in> set (es_records s). success_for a c x \<longrightarrow> sr_CreatedAt x + d \<le> sr_CreatedAt y))
     \<and> (spaced d a c (es_records s) \<longrightarrow>
          spaced d a c (es_records (dispatch_loop L (re_chan e) r a' title body i chs s)))
     \<and> (a_Status alert = ''firing'' \<and> spaced d a c (es_records s) \<longrightarrow>
          spaced d a c (es_records (processRule L T e r alert labels s)))
     \<and> sendRateLimited L now r a c s =
         sendRateLimited L now r a c
           (s\<lparr>es_records := filter (\<lambda>x. sr_AlertID x = a) (es_records s)\<rparr>)"
proof -
  have g: "\<forall>y. es_records (dispatch_pass L (re_chan e i) r a title body c s) = es_records s @ [y] \<longrightarrow>
          (\<forall>x \<in> set (es_records s). success_for a c x \<longrightarrow> sr_CreatedAt x + d \<le> sr_CreatedAt y)"
    using dispatch_pass_success_gap [OF assms(1-3), of "re_chan e i" a title body c s] assms(4)
    by blast
  have p: "a_Status alert = ''firing'' \<and> spaced d a c (es_records s) \<longrightarrow>
          spaced d a c (es_records (processRule L T e r alert labels s))"
    using processRule_firing_spaced [OF assms(1-4)] by blast
  have l: "spaced d a c (es_records s) \<longrightarrow>
          spaced d a c (es_records (dispatch_loop L (re_chan e) r a' title body i chs s))"
    using dispatch_loop_spaced [OF assms(1-4)] by blast
  from g p l sendRateLimited_iff [OF assms(1-3), of now a c s]
    dispatch_pass_limited [of L "re_chan e i" r a c s title body]
    sendRateLimited_own_records [of L now r a c s]
  show ?thesis by blast
qed

text \<open>
  The rule with a five-minute interval, after a successful send at instant 1000: a
  dispatch 90 seconds later is throttled and changes nothing; one five minutes later is
  sent, and the records stay spaced.
\<close>

theorem C4_send_interval_witness:
  "r_SendInterval ex_rule \<noteq> [] \<and> r_SendInterval ex_rule \<noteq> ''0''
   \<and> ParseDuration demo_lib (r_SendInterval ex_rule) = Some (5 * minute)
   \<and> (\<forall>i. ce_now_check (re_chan (env_at (1000 + 5 * minute) 0) i)
            \<le> ce_now_create (re_chan (env_at (1000 + 5 * minute) 0) i))
   \<and> spaced (5 * minute) ''a1'' 7 (es_records (create_record 1000 ''a1'' 7 True [] ex_state))
   \<and> sendRateLimited demo_lib (1000 + 90 * second) ex_rule ''a1'' 7
       (create_record 1000 ''a1'' 7 True [] ex_state)
   \<and> \<not> sendRateLimited demo_lib (1000 + 5 * minute) ex_rule ''a1'' 7
       (create_record 1000 ''a1'' 7 True [] ex_state)
   \<and> a_Status ex_alert = ''firing''
   \<and> spaced (5 * minute) ''a1'' 7
       (es_records (processRule demo_lib demo_texts (env_at (1000 + 5 * minute) 0) ex_rule ex_alert []
          (create_record 1000 ''a1'' 7 True [] ex_state)))"
proof -
  let ?s = "create_record 1000 ''a1'' 7 True [] ex_state"
  let ?e = "env_at (1000 + 5 * minute) 0"
  have h1: "r_SendInterval ex_rule \<noteq> []" and h2: "r_SendInterval ex_rule \<noteq> ''0''"
    and h3: "ParseDuration demo_lib (r_SendInterval ex_rule) = Some (5 * minute)"
    by (simp_all add: ex_rule_def demo_lib_def demo_ParseDuration_def)
  have h4: "\<forall>i. ce_now_check (re_chan ?e i) \<le> ce_now_create (re_chan ?e i)"
    by (simp add: env_at_def)
  have h5: "spaced (5 * minute) ''a1'' 7 (es_records ?s)"
    by (simp add: spaced_def create_record_def ex_state_def)
  have recs: "es_records ?s = [\<lparr>sr_AlertID = ''a1'', sr_ChannelID = 7, sr_Success = True,
      sr_Error = [], sr_CreatedAt = 1000\<rparr>]"
    by (simp add: create_record_def ex_state_def)
  note T = C4_send_interval [OF h1 h2 h3 h4]
  have a: "sendRateLimited demo_lib (1000 + 90 * second) ex_rule ''a1'' 7 ?s"
    using T [where now = "1000 + 90 * second" and a = "''a1''" and c = 7 and s = ?s]
    by (simp add: recs success_for_def minute_def second_def)
  have b: "\<not> sendRateLimited demo_lib (1000 + 5 * minute) ex_rule ''a1'' 7 ?s"
    using T [where now = "1000 + 5 * minute" and a = "''a1''" and c = 7 and s = ?s]
    by (simp add: recs success_for_def minute_def second_def)
  have st: "a_Status ex_alert = ''firing''" by (simp add: ex_alert_def)
  have c: "spaced (5 * minute) ''a1'' 7
       (es_records (processRule demo_lib demo_texts ?e ex_rule ex_alert [] ?s))"
    using T [where alert = ex_alert and T = demo_texts and labels = "[]" and a = "''a1''" and c = 7
        and s = ?s] st h5 by blast
  from h1 h2 h3 h4 h5 a b c st show ?thesis by blast
qed

text \<open>
  C6, the recovery branch on a channel that does not exist: the rule routes to channel
  3, the store has channel 7 only, and no send record precedes. \<open>ProcessAlert\<close> on the
  resolved alert leaves the send records empty, where the specification has a failure
  record; \<open>ProcessAlert\<close> on the firing alert, under the same rule, does write that record.
  The other cases of the recovery loop are as the claim states them:
  \<open>recovery_pass_cases\<close>.
\<close>

theorem C6_recovery_missing_channel_writes_no_record:
  "es_channels ex_state 3 = None
   \<and> \<not> recoveryAlreadySent 5000 ''a1'' 3 ex_state
   \<and> a_Status ex_alert_resolved = ''resolved'' \<and> r_RecoveryNotify ex_rule_3
   \<and> channelIDs_of demo_lib ex_rule_3 ex_alert_resolved = [3]
   \<and> es_records (ProcessAlert demo_lib demo_texts 5000 (always (env_at 5000 0)) [ex_rule_3]
        ex_alert_resolved ex_state) = []
   \<and> es_records (ProcessAlert demo_lib demo_texts 5000 (always (env_at 5000 0)) [ex_rule_3]
        ex_alert ex_state) =
       [\<lparr>sr_AlertID = ''a1'', sr_ChannelID = 3, sr_Success = False,
         sr_Error = ''channel not found or disabled'', sr_CreatedAt = 5000\<rparr>]"
proof -
  have a: "es_channels ex_state 3 = None" "\<not> recoveryAlreadySent 5000 ''a1'' 3 ex_state"
    "a_Status ex_alert_resolved = ''resolved''" "r_RecoveryNotify ex_rule_3"
    "channelIDs_of demo_lib ex_rule_3 ex_alert_resolved = [3]"
    by (simp_all add: ex_state_def recoveryAlreadySent_def success_since_def ex_alert_resolved_def
        ex_alert_def ex_rule_3_def ex_rule_def channelIDs_of_def annotationValue_def demo_lib_def
        demo_Unmarshal_uints_def)
  have "es_records (processRule demo_lib demo_texts (env_at 5000 0) ex_rule_3 ex_alert_resolved []
        ex_state) = []"
    by (simp add: processRule_def updateSuppressionWindow_def ex_rule_3_def ex_rule_def matchRule_def
        ex_alert_resolved_def ex_alert_def channelIDs_of_def annotationValue_def demo_lib_def
        demo_Unmarshal_uints_def recovery_pass_def recoveryAlreadySent_def success_since_def
        ex_state_def env_at_def Let_def)
  then have b: "es_records (ProcessAlert demo_lib demo_texts 5000 (always (env_at 5000 0)) [ex_rule_3]
        ex_alert_resolved ex_state) = []"
    by (simp add: ProcessAlert_single ex_not_silenced ex_labels ex_state_def)
  have "es_records (processRule demo_lib demo_texts (env_at 5000 0) ex_rule_3 ex_alert [] ex_state) =
       [\<lparr>sr_AlertID = ''a1'', sr_ChannelID = 3, sr_Success = False,
         sr_Error = ''channel not found or disabled'', sr_CreatedAt = 5000\<rparr>]"
    by (simp add: processRule_def updateSuppressionWindow_def ex_rule_3_def ex_rule_def matchRule_def
        ex_alert_def channelIDs_of_def annotationValue_def demo_lib_def demo_Unmarshal_uints_def
        dispatch_pass_def sendRateLimited_def success_since_def ex_state_def env_at_def Let_def
        durationSatisfied_def inExcludeWindow_def suppressed_def demo_texts_def
        demo_ParseDuration_def create_record_def)
  then have c: "es_records (ProcessAlert demo_lib demo_texts 5000 (always (env_at 5000 0)) [ex_rule_3]
        ex_alert ex_state) =
       [\<lparr>sr_AlertID = ''a1'', sr_ChannelID = 3, sr_Success = False,
         sr_Error = ''channel not found or disabled'', sr_CreatedAt = 5000\<rparr>]"
    by (simp add: ProcessAlert_single ex_not_silenced ex_labels ex_state_def)
  from a b c show ?thesis by blast
qed

section \<open>Properties of the aggregated dispatch\<close>

lemma sendAggregated_skipped:
  assumes "filter (\<lambda>a. a_FiringAt a \<ge> re_now_since e - d \<and> a_Status a = ''firing'') (es_alerts s) \<noteq> []"
    and "d = (case ParseDuration L (r_AggregateWindow r) of None \<Rightarrow> 5 * minute | Some d \<Rightarrow> d)"
    and "es_aggLastSent s (aggStateKey L r labels) \<noteq> 0"
    and "time_Sub (re_now_lastSent e) (es_aggLastSent s (aggStateKey L r labels)) < d"
  shows "sendAggregated L e r alert labels title body chs s = s"
  using assms by (simp add: sendAggregated_def Let_def)

lemma sendAggregated_marks:
  assumes "filter (\<lambda>a. a_FiringAt a \<ge> re_now_since e - d \<and> a_Status a = ''firing'') (es_alerts s) \<noteq> []"
    and "d = (case ParseDuration L (r_AggregateWindow r) of None \<Rightarrow> 5 * minute | Some d \<Rightarrow> d)"
    and "es_aggLastSent s (aggStateKey L r labels) = 0
         \<or> \<not> time_Sub (re_now_lastSent e) (es_aggLastSent s (aggStateKey L r labels)) < d"
  shows "es_aggLastSent (sendAggregated L e r alert labels title body chs s) (aggStateKey L r labels)
           = re_now_mark e"
  using assms by (auto simp: sendAggregated_def Let_def)

lemma showNat_1: "showNat (Suc 0) = ''1''"
  by code_simp

text \<open>
  C7, a dispatch in which no send succeeds. The rule aggregates by host name with a
  window of five minutes; the only channel's sender fails at instant 2000. The failure is
  recorded in the send records, and the instant is recorded as the last aggregated send
  all the same: \<open>ProcessAlert\<close> on the same alert one minute later, with a sender that
  would succeed, changes nothing, the dispatch being skipped as already sent. The first
  part of the claim (the skip while \<open>now - lastSent < window\<close>) holds:
  \<open>sendAggregated_skipped\<close>.
\<close>

theorem C7_failed_dispatch_recorded_as_sent:
  "es_aggLastSent ex_state (aggStateKey demo_lib ex_rule_agg []) = 0
   \<and> map sr_Success (es_records
         (ProcessAlert demo_lib demo_texts 2000 (always (env_failing 2000)) [ex_rule_agg] ex_alert ex_state))
       = [False]
   \<and> es_aggLastSent
         (ProcessAlert demo_lib demo_texts 2000 (always (env_failing 2000)) [ex_rule_agg] ex_alert ex_state)
         (aggStateKey demo_lib ex_rule_agg []) = 2000
   \<and> ProcessAlert demo_lib demo_texts (2000 + minute) (always (env_at (2000 + minute) 0)) [ex_rule_agg] ex_alert
         (ProcessAlert demo_lib demo_texts 2000 (always (env_failing 2000)) [ex_rule_agg] ex_alert ex_state)
       = ProcessAlert demo_lib demo_texts 2000 (always (env_failing 2000)) [ex_rule_agg] ex_alert ex_state"
proof -
  let ?s1 = "ex_state\<lparr>es_records := [\<lparr>sr_AlertID = ''a1'', sr_ChannelID = 7, sr_Success = False,
                                  sr_Error = ''timeout'', sr_CreatedAt = 2000\<rparr>],
                 es_sent := [\<lparr>call_Type = ''lark'', call_Config = ''{}'',
                               call_Title = ''disk full (1 hostname)'',
                               call_Body = ''disk full'' @ [CHR 0x0A, CHR 0x0A] @ ''hostname list: a1'',
                               call_IsRecovery = False\<rparr>],
                 es_aggLastSent := (\<lambda>k. 0)(''1_'' := 2000)\<rparr>"
  have key: "aggStateKey demo_lib ex_rule_agg [] = ''1_''"
    by (simp add: aggStateKey_def ex_rule_agg_def ex_rule_def typeFingerprint_def showNat_1)
  have "processRule demo_lib demo_texts (env_failing 2000) ex_rule_agg ex_alert [] ex_state = ?s1"
    by (simp add: processRule_def updateSuppressionWindow_def ex_rule_agg_def ex_rule_def matchRule_def
        ex_alert_def channelIDs_of_def annotationValue_def demo_lib_def demo_Unmarshal_uints_def
        dispatch_pass_def sendRateLimited_def success_since_def ex_state_def env_at_def
        env_failing_def Let_def durationSatisfied_def inExcludeWindow_def suppressed_def
        demo_texts_def sendAggregated_def demo_ParseDuration_def create_record_def call_sender_def
        ex_channel_def aggStateKey_def typeFingerprint_def showNat_1 aggregationKey_def lookup_def
        time_Sub_def minute_def second_def)
  then have s1: "ProcessAlert demo_lib demo_texts 2000 (always (env_failing 2000)) [ex_rule_agg] ex_alert
      ex_state = ?s1"
    by (simp add: ProcessAlert_single ex_not_silenced ex_labels ex_state_def)
  have "processRule demo_lib demo_texts (env_at (2000 + minute) 0) ex_rule_agg ex_alert [] ?s1 = ?s1"
    by (simp add: processRule_def updateSuppressionWindow_def ex_rule_agg_def ex_rule_def matchRule_def
        ex_alert_def channelIDs_of_def annotationValue_def demo_lib_def demo_Unmarshal_uints_def
        ex_state_def env_at_def Let_def durationSatisfied_def inExcludeWindow_def suppressed_def
        demo_texts_def sendAggregated_def demo_ParseDuration_def
        aggStateKey_def typeFingerprint_def showNat_1 aggregationKey_def lookup_def
        time_Sub_def minute_def second_def)
  then have s2: "ProcessAlert demo_lib demo_texts (2000 + minute) (always (env_at (2000 + minute) 0))
      [ex_rule_agg] ex_alert ?s1 = ?s1"
    by (simp add: ProcessAlert_single ex_not_silenced ex_labels ex_state_def)
  have z: "es_aggLastSent ex_state (aggStateKey demo_lib ex_rule_agg []) = 0"
    by (simp add: ex_state_def)
  show ?thesis
    unfolding s1 s2 key using z by (simp add: key)
qed

section \<open>Properties of the webhook ingress\<close>

lemma fold_least_in: "fold (\<lambda>x y. if a_ID x < a_ID y then x else y) ms m \<in> set (m # ms)"
  by (induction ms arbitrary: m) auto

lemma db_First_Some:
  assumes "db_First P rows = Some found"
  shows "found \<in> set rows \<and> P found"
proof -
  from assms obtain m ms where f: "filter P rows = m # ms"
    and r: "found = fold (\<lambda>x y. if a_ID x < a_ID y then x else y) ms m"
    by (auto simp: db_First_def split: list.splits)
  from fold_least_in [of ms m] r f have "found \<in> set (filter P rows)" by simp
  then show ?thesis by simp
qed

lemma db_Save_found:
  "found \<in> set rows \<Longrightarrow> a_ID alert = a_ID found \<Longrightarrow>
     db_Save now alert rows = map (\<lambda>x. if a_ID x = a_ID found then alert else x) rows"
  by (auto simp: db_Save_def)

lemma store_alert_update:
  assumes "db_First (firing_row sourceID externalID) rows = Some found" and "status \<noteq> ''resolved''"
  shows "store_alert e sourceID sourceType externalID status title severity firingAt resolvedAt
           labelsJSON annotationsJSON rows =
         (map (\<lambda>x. if a_ID x = a_ID found
                    then found\<lparr>a_Title := title, a_Severity := severity, a_FiringAt := firingAt,
                               a_Labels := labelsJSON, a_Annotations := annotationsJSON\<rparr>
                    else x) rows,
          Some (found\<lparr>a_Title := title, a_Severity := severity, a_FiringAt := firingAt,
                      a_Labels := labelsJSON, a_Annotations := annotationsJSON\<rparr>),
          False)"
proof -
  from db_First_Some [OF assms(1)] have "found \<in> set rows" by simp
  then show ?thesis
    using assms by (simp add: store_alert_def Let_def db_Save_found)
qed

lemma ex_first: "db_First (firing_row 1 (Generic_externalID demo_lib 1 ex_push)) [ex_row] = Some ex_row"
  by (simp add: db_First_def firing_row_def ex_row_def ex_alert_def)

text \<open>
  What the firing branch of the handlers does. When a firing payload (one whose status is
  not \<open>resolved\<close>) arrives and the table has a firing row \<open>old\<close> for its source id and
  fingerprint, either handler writes that row back under its own id, with the title,
  severity, labels and annotations of the payload and every other column but one as it was;
  no row is added, and the updated row is what the engine is handed. The one other column
  is the firing instant, which is assigned as well: the start time of the payload when
  that parses to a non-zero instant, and the current clock reading otherwise.
\<close>

lemma Serve_firing_update:
  "(db_First (firing_row sourceID (Generic_externalID L sourceID ga)) rows = Some old
      \<and> Generic_status ga \<noteq> ''resolved'' \<longrightarrow>
      GenericHandler_Serve_alert L e sourceType sourceID ga rows =
        (map (\<lambda>x. if a_ID x = a_ID old
                   then old\<lparr>a_Title := Generic_title ga, a_Severity := Generic_severity ga,
                            a_FiringAt := firingAt_of L (we_now e) (ga_StartsAt ga),
                            a_Labels := json_Marshal_labels L (ga_Labels ga),
                            a_Annotations := json_Marshal_labels L (ga_Annotations ga)\<rparr>
                   else x) rows,
         Some (old\<lparr>a_Title := Generic_title ga, a_Severity := Generic_severity ga,
                    a_FiringAt := firingAt_of L (we_now e) (ga_StartsAt ga),
                    a_Labels := json_Marshal_labels L (ga_Labels ga),
                    a_Annotations := json_Marshal_labels L (ga_Annotations ga)\<rparr>),
         False)
      \<and> old \<in> set rows \<and> firing_row sourceID (Generic_externalID L sourceID ga) old)
   \<and> (db_First (firing_row sourceID (Prometheus_externalID L sourceID pa)) rows = Some old
      \<and> Prometheus_status pa \<noteq> ''resolved'' \<longrightarrow>
      PrometheusHandler_Serve_alert L e sourceType sourceID pa rows =
        (map (\<lambda>x. if a_ID x = a_ID old
                   then old\<lparr>a_Title := Prometheus_title pa, a_Severity := Prometheus_severity pa,
                            a_FiringAt := firingAt_of L (we_now e) (pa_StartsAt pa),
                            a_Labels := json_Marshal_labels L (pa_Labels pa),
                            a_Annotations := json_Marshal_labels L (pa_Annotations pa)\<rparr>
                   else x) rows,
         Some (old\<lparr>a_Title := Prometheus_title pa, a_Severity := Prometheus_severity pa,
                    a_FiringAt := firingAt_of L (we_now e) (pa_StartsAt pa),
                    a_Labels := json_Marshal_labels L (pa_Labels pa),
                    a_Annotations := json_Marshal_labels L (pa_Annotations pa)\<rparr>),
         False)
      \<and> old \<in> set rows \<and> firing_row sourceID (Prometheus_externalID L sourceID pa) old)
   \<and> firingAt_of L now startsAt =
       (case ParseRFC3339 L startsAt of
          Some t \<Rightarrow> if startsAt \<noteq> [] \<and> t \<noteq> 0 then t else now
        | None \<Rightarrow> now)"
proof -
  have f: "firingAt_of L now startsAt =
       (case ParseRFC3339 L startsAt of
          Some t \<Rightarrow> if startsAt \<noteq> [] \<and> t \<noteq> 0 then t else now
        | None \<Rightarrow> now)"
    by (simp add: firingAt_of_def Let_def split: option.splits)
  show ?thesis
    unfolding GenericHandler_Serve_alert_def PrometheusHandler_Serve_alert_def
    using f db_First_Some [of "firing_row sourceID (Generic_externalID L sourceID ga)" rows old]
      db_First_Some [of "firing_row sourceID (Prometheus_externalID L sourceID pa)" rows old]
      store_alert_update [of sourceID "Generic_externalID L sourceID ga" rows old "Generic_status ga"]
      store_alert_update [of sourceID "Prometheus_externalID L sourceID pa" rows old "Prometheus_status pa"]
    by auto
qed

lemma ex_prom_first:
  "db_First (firing_row 1 (Prometheus_externalID demo_lib 1 ex_prom_push)) [ex_prom_row] = Some ex_prom_row"
  by (simp add: db_First_def firing_row_def ex_prom_row_def ex_alert_def)

text \<open>
  C1, a firing push for a row that is firing already. The row keeps its id, but its
  firing instant is overwritten, where the claim has it preserved. An Alertmanager alert
  whose row has the firing instant 00:00:10 is pushed again with the start time 00:00:20:
  the firing instant of the row is now 00:00:20. A generic alert firing since instant
  1000 is pushed again, without a start time, at instant 9000: the firing instant of the
  row is now 9000. The same alert pushed ten minutes after instant 1000: the row as it was
  satisfies the duration of a rule with \<open>duration = 5m\<close>, and the alert the handler hands to
  the engine, firing since the instant of the push, does not; pushed again and again
  without a start time, it never does.
\<close>

theorem C1_firing_push_overwrites_firingAt:
  "db_First (firing_row 1 (Prometheus_externalID demo_lib 1 ex_prom_push)) [ex_prom_row]
     = Some ex_prom_row
   \<and> Prometheus_status ex_prom_push = ''firing''
   \<and> a_FiringAt ex_prom_row = 62135596810 * second
   \<and> map a_ID (fst (PrometheusHandler_Serve_alert demo_lib ex_wenv ''prometheus'' 1 ex_prom_push
        [ex_prom_row])) = [a_ID ex_prom_row]
   \<and> map a_FiringAt (fst (PrometheusHandler_Serve_alert demo_lib ex_wenv ''prometheus'' 1 ex_prom_push
        [ex_prom_row])) = [62135596820 * second]
   \<and> db_First (firing_row 1 (Generic_externalID demo_lib 1 ex_push)) [ex_row] = Some ex_row
   \<and> Generic_status ex_push = ''firing''
   \<and> a_FiringAt ex_row = 1000
   \<and> map a_ID (fst (GenericHandler_Serve_alert demo_lib ex_wenv ''elasticsearch'' 1 ex_push [ex_row]))
       = [a_ID ex_row]
   \<and> map a_FiringAt (fst (GenericHandler_Serve_alert demo_lib ex_wenv ''elasticsearch'' 1 ex_push [ex_row]))
       = [9000]
   \<and> durationSatisfied demo_lib (1000 + 10 * minute) ex_rule_5m ex_row
   \<and> map_option a_FiringAt
        (fst (snd (GenericHandler_Serve_alert demo_lib ex_wenv_late ''elasticsearch'' 1 ex_push [ex_row])))
       = Some (1000 + 10 * minute)
   \<and> map_option (durationSatisfied demo_lib (1000 + 10 * minute) ex_rule_5m)
        (fst (snd (GenericHandler_Serve_alert demo_lib ex_wenv_late ''elasticsearch'' 1 ex_push [ex_row])))
       = Some False"
proof -
  have st: "Generic_status ex_push = ''firing''" "Prometheus_status ex_prom_push = ''firing''"
    by (simp_all add: Generic_status_def ex_push_def Prometheus_status_def ex_prom_push_def)
  have f: "firingAt_of demo_lib (we_now ex_wenv) (ga_StartsAt ex_push) = 9000"
    "firingAt_of demo_lib (we_now ex_wenv) (pa_StartsAt ex_prom_push) = 62135596820 * second"
    "firingAt_of demo_lib (we_now ex_wenv_late) (ga_StartsAt ex_push) = 1000 + 10 * minute"
    by (simp_all add: firingAt_of_def ex_wenv_def ex_wenv_late_def ex_push_def ex_prom_push_def
        demo_lib_def demo_ParseRFC3339_def second_def minute_def)
  have g: "fst (GenericHandler_Serve_alert demo_lib ex_wenv ''elasticsearch'' 1 ex_push [ex_row]) =
      [ex_row\<lparr>a_Title := Generic_title ex_push, a_Severity := Generic_severity ex_push,
               a_FiringAt := 9000,
               a_Labels := json_Marshal_labels demo_lib (ga_Labels ex_push),
               a_Annotations := json_Marshal_labels demo_lib (ga_Annotations ex_push)\<rparr>]"
    unfolding GenericHandler_Serve_alert_def
    by (simp add: store_alert_update [OF ex_first] st f)
  have h: "fst (PrometheusHandler_Serve_alert demo_lib ex_wenv ''prometheus'' 1 ex_prom_push [ex_prom_row]) =
      [ex_prom_row\<lparr>a_Title := Prometheus_title ex_prom_push, a_Severity := Prometheus_severity ex_prom_push,
               a_FiringAt := 62135596820 * second,
               a_Labels := json_Marshal_labels demo_lib (pa_Labels ex_prom_push),
               a_Annotations := json_Marshal_labels demo_lib (pa_Annotations ex_prom_push)\<rparr>]"
    unfolding PrometheusHandler_Serve_alert_def
    by (simp add: store_alert_update [OF ex_prom_first] st f)
  have l: "fst (snd (GenericHandler_Serve_alert demo_lib ex_wenv_late ''elasticsearch'' 1 ex_push [ex_row])) =
      Some (ex_row\<lparr>a_Title := Generic_title ex_push, a_Severity := Generic_severity ex_push,
               a_FiringAt := 1000 + 10 * minute,
               a_Labels := json_Marshal_labels demo_lib (ga_Labels ex_push),
               a_Annotations := json_Marshal_labels demo_lib (ga_Annotations ex_push)\<rparr>)"
    unfolding GenericHandler_Serve_alert_def
    by (simp add: store_alert_update [OF ex_first] st f)
  have d: "durationSatisfied demo_lib (1000 + 10 * minute) ex_rule_5m ex_row"
    by (simp add: durationSatisfied_def ex_rule_5m_def ex_rule_def demo_lib_def
        demo_ParseDuration_def ex_row_def ex_alert_def time_Sub_def minute_def second_def)
  have e: "\<not> durationSatisfied demo_lib (1000 + 10 * minute) ex_rule_5m
      (ex_row\<lparr>a_Title := Generic_title ex_push, a_Severity := Generic_severity ex_push,
               a_FiringAt := 1000 + 10 * minute,
               a_Labels := json_Marshal_labels demo_lib (ga_Labels ex_push),
               a_Annotations := json_Marshal_labels demo_lib (ga_Annotations ex_push)\<rparr>)"
    by (simp add: durationSatisfied_def ex_rule_5m_def ex_rule_def demo_lib_def
        demo_ParseDuration_def time_Sub_def minute_def second_def)
  show ?thesis
    unfolding g h l using ex_first ex_prom_first st d e
    by (simp add: ex_row_def ex_prom_row_def ex_alert_def)
qed

section \<open>Properties of the rule evaluation\<close>

lemma map_of_map_put: "map_of (map_put k v m) k = Some v"
proof (cases "k \<in> fst ` set m")
  case True
  then have "map_of (map (\<lambda>kv. if fst kv = k then (k, v) else kv) m) k = Some v"
    by (induction m) auto
  with True show ?thesis by (simp add: map_put_def)
next
  case False
  then have "map_of m k = None" by (simp add: map_of_eq_None_iff)
  with False show ?thesis by (simp add: map_put_def map_add_def)
qed

lemma map_of_map_delete: "map_of (map_delete k m) k = None"
  by (simp add: map_delete_def map_of_eq_None_iff image_iff)

lemma resolve_step_present:
  "k \<in> set currentKeys \<Longrightarrow> resolve_step now currentKeys (k, q) st = st"
  by (simp add: resolve_step_def)

lemma resolve_step_grace:
  assumes "k \<notin> set currentKeys" and "qr_MissCount q + 1 < resolveGracePeriod"
  shows "resolve_step now currentKeys (k, q) st =
     st\<lparr>ss_lastResults := map_put k (q\<lparr>qr_MissCount := qr_MissCount q + 1\<rparr>) (ss_lastResults st)\<rparr>"
  using assms by (simp add: resolve_step_def Let_def)

lemma resolve_step_crossed:
  assumes "k \<notin> set currentKeys" and "\<not> qr_MissCount q + 1 < resolveGracePeriod"
  shows "map_of (ss_lastResults (resolve_step now currentKeys (k, q) st)) k = None"
    and "qr_AlertID q \<noteq> [] \<Longrightarrow> db_First (\<lambda>x. a_ID x = qr_AlertID q) (ss_alerts st) = Some alert
          \<Longrightarrow> a_Status alert = ''firing'' \<Longrightarrow>
         ss_outbox (resolve_step now currentKeys (k, q) st) =
           ss_outbox st @ [alert\<lparr>a_Status := ''resolved'', a_ResolvedAt := Some now\<rparr>]
         \<and> ss_alerts (resolve_step now currentKeys (k, q) st) =
           db_Save now (alert\<lparr>a_Status := ''resolved'', a_ResolvedAt := Some now\<rparr>) (ss_alerts st)"
  using assms by (simp_all add: resolve_step_def Let_def map_of_map_delete split: option.splits)

lemma resolve_step_only_after_grace:
  assumes "ss_alerts (resolve_step now currentKeys (k, q) st) \<noteq> ss_alerts st
           \<or> ss_outbox (resolve_step now currentKeys (k, q) st) \<noteq> ss_outbox st
           \<or> map_of (ss_lastResults (resolve_step now currentKeys (k, q) st)) k = None
              \<and> map_of (ss_lastResults st) k \<noteq> None"
  shows "k \<notin> set currentKeys \<and> qr_MissCount q + 1 \<ge> resolveGracePeriod"
proof (rule ccontr)
  assume "\<not> (k \<notin> set currentKeys \<and> qr_MissCount q + 1 \<ge> resolveGracePeriod)"
  then consider "k \<in> set currentKeys"
    | "k \<notin> set currentKeys" "qr_MissCount q + 1 < resolveGracePeriod" by force
  then show False
  proof cases
    case 1
    with assms show False by (auto simp: resolve_step_present)
  next
    case 2
    with assms show False by (auto simp: resolve_step_grace map_of_map_put)
  qed
qed

text \<open>
  A series that reappears, and whose row is written or needs no write, has its miss count
  at zero afterwards; when the write fails the entry is left as it was.
\<close>

lemma process_series_reappears:
  assumes "process_series L e rule ds i metric val severity annotations st = (st', k)"
    and "map_of (ss_lastResults st) k = Some q" and "qr_MissCount q \<ge> 0"
  shows "k = KeyForSeriesWithRule L (ds_ID ds) (r_ID rule) (r_Name rule @ '': '' @ formatMetric metric)
              (Some metric) i"
    and "sv_write e \<noteq> WriteError \<Longrightarrow>
           \<exists>q'. map_of (ss_lastResults st') k = Some q' \<and> qr_MissCount q' = 0"
proof -
  let ?k = "KeyForSeriesWithRule L (ds_ID ds) (r_ID rule) (r_Name rule @ '': '' @ formatMetric metric)
              (Some metric) i"
  show k: "k = ?k"
    using assms(1) by (auto simp: process_series_def Let_def split: if_splits option.splits prod.splits)
  assume w: "sv_write e \<noteq> WriteError"
  from assms(2) k have q: "map_of (ss_lastResults st) ?k = Some q" by simp
  show "\<exists>q'. map_of (ss_lastResults st') k = Some q' \<and> qr_MissCount q' = 0"
    using assms(1,3) q w unfolding k
    by (auto simp: process_series_def Let_def map_of_map_put split: if_splits option.splits)
qed

lemma process_series_write_fails:
  assumes "k = KeyForSeriesWithRule L (ds_ID ds) (r_ID rule) (r_Name rule @ '': '' @ formatMetric metric)
              (Some metric) i"
    and "map_of (ss_lastResults st) k = Some q"
    and "f_ne (roundValue L (qr_Value q)) (roundValue L val)"
    and "sv_write e = WriteError"
  shows "process_series L e rule ds i metric val severity annotations st = (st, k)"
  using assms by (simp add: process_series_def Let_def split: option.splits)

lemmas sched_defs = queryPrometheus_def ParseThresholds_def series_step_def process_series_def
  ex_rule_def ex_ds_def ex_series_def ex_sched0_def senv_ok_def senv_failing_def formatMetric_def
  db_Find_def firing_row_def db_Create_def db_Save_def db_First_def stamp_def map_put_def map_delete_def
  resolve_step_def resolveGracePeriod_def Let_def ex_alert_u1_def ex_entry_def ex_key_def
  demo_lib_def f_ne_def time_Sub_def second_def minute_def roundValue_def demo_Float64_mul_def
  demo_Float64_quo_def

lemma ex_first_sighting:
  "queryPrometheus demo_lib (senv_ok t) (always t) ex_rule ex_ds [ex_series 91] ex_sched0
     = \<lparr>ss_lastResults = [(ex_key, ex_entry 91 t 0)], ss_alerts = [ex_alert_u1 t],
        ss_outbox = [ex_alert_u1 t]\<rparr>"
  by (simp add: sched_defs)

lemma ex_absent:
  "queryPrometheus demo_lib (senv_ok t) (always t) ex_rule ex_ds []
      \<lparr>ss_lastResults = [(ex_key, ex_entry v u m)], ss_alerts = [ex_alert_u1 u], ss_outbox = ob\<rparr>
     = (if m + 1 < 3
        then \<lparr>ss_lastResults = [(ex_key, ex_entry v u (m + 1))], ss_alerts = [ex_alert_u1 u],
               ss_outbox = ob\<rparr>
        else \<lparr>ss_lastResults = [],
               ss_alerts = [(ex_alert_u1 u)\<lparr>a_Status := ''resolved'', a_ResolvedAt := Some t\<rparr>],
               ss_outbox = ob @ [(ex_alert_u1 u)\<lparr>a_Status := ''resolved'', a_ResolvedAt := Some t\<rparr>]\<rparr>)"
  by (simp add: sched_defs)

lemma ex_present_write_fails:
  "queryPrometheus demo_lib (senv_failing t) (always t) ex_rule ex_ds [ex_series 95]
      \<lparr>ss_lastResults = [(ex_key, ex_entry 91 u m)], ss_alerts = [ex_alert_u1 u], ss_outbox = ob\<rparr>
     = \<lparr>ss_lastResults = [(ex_key, ex_entry 91 u m)], ss_alerts = [ex_alert_u1 u], ss_outbox = ob\<rparr>"
  by (simp add: sched_defs)

lemma ex_present_write_ok:
  "queryPrometheus demo_lib (senv_ok t) (always t) ex_rule ex_ds [ex_series 95]
      \<lparr>ss_lastResults = [(ex_key, ex_entry 91 u m)], ss_alerts = [ex_alert_u1 u], ss_outbox = ob\<rparr>
     = \<lparr>ss_lastResults = [(ex_key, ex_entry 95 t 0)], ss_alerts = [ex_alert_u1 u],
        ss_outbox = ob @ [ex_alert_u1 u]\<rparr>"
  by (simp add: sched_defs)

lemma ex_trace3_eq:
  "ex_trace3 = \<lparr>ss_lastResults = [(ex_key, ex_entry 91 minute 2)], ss_alerts = [ex_alert_u1 minute],
                ss_outbox = [ex_alert_u1 minute]\<rparr>"
  by (simp add: ex_trace3_def ex_first_sighting ex_absent)

text \<open>
  C2, a reappearance whose write the store rejects. The series fires at minute 1 and is
  absent at minutes 2 and 3 (miss count 2). At minute 4 it is back in the query result
  with a new value, but the \<open>Save\<close> of the alert row fails: the loop \<open>continue\<close>s before the
  state is updated, and the miss count stays at 2 instead of being reset. At minute 5 the
  series is absent once more, the count reaches 3, and the alert is resolved and handed
  to the engine, although the series was never absent in three consecutive evaluations.
  With a write that succeeds at minute 4 the count is reset to 0. The remaining parts of
  the claim hold: \<open>resolve_step_grace\<close>, \<open>resolve_step_crossed\<close>,
  \<open>resolve_step_only_after_grace\<close>, \<open>process_series_reappears\<close>.
\<close>

theorem C2_failed_write_keeps_miss_count:
  "miss_counts ex_trace3 = [2]
   \<and> map a_Status (ss_alerts ex_trace3) = [''firing'']
   \<and> ex_trace4 = ex_trace3
   \<and> ss_lastResults ex_trace5 = []
   \<and> map a_Status (ss_alerts ex_trace5) = [''resolved'']
   \<and> map a_Status (ss_outbox ex_trace5) = [''firing'', ''resolved'']
   \<and> miss_counts (queryPrometheus demo_lib (senv_ok (4 * minute)) (always (4 * minute)) ex_rule
         ex_ds [ex_series 95] ex_trace3) = [0]"
proof -
  have t4: "ex_trace4 = ex_trace3"
    by (simp add: ex_trace4_def ex_trace3_eq ex_present_write_fails)
  have t5: "ex_trace5 =
      \<lparr>ss_lastResults = [],
       ss_alerts = [(ex_alert_u1 minute)\<lparr>a_Status := ''resolved'', a_ResolvedAt := Some (5 * minute)\<rparr>],
       ss_outbox = [ex_alert_u1 minute,
                    (ex_alert_u1 minute)\<lparr>a_Status := ''resolved'', a_ResolvedAt := Some (5 * minute)\<rparr>]\<rparr>"
    by (simp add: ex_trace5_def t4 ex_trace3_eq ex_absent)
  show ?thesis
    unfolding miss_counts_def t5 t4 unfolding ex_trace3_eq ex_present_write_ok
    by (simp add: ex_entry_def ex_alert_u1_def)
qed

end
